theory Spec2Isabelle
  imports Main "HOL-Library.Word"
begin

unbundle bit_operations_syntax

section \<open>The platform: constants and types of \<^verbatim>\<open>sys/acl.h\<close>\<close>

text \<open>
  \<^verbatim>\<open>acl.c\<close> is a CPython extension module over the POSIX.1e library. The C types
  \<^verbatim>\<open>int\<close>, \<^verbatim>\<open>acl_tag_t\<close>, \<^verbatim>\<open>acl_perm_t\<close> and \<^verbatim>\<open>uid_t\<close> are 32-bit words, a C
  \<^verbatim>\<open>long\<close> (the payload of a Python int) is a 64-bit word. Return codes of library
  calls (\<open>0\<close>, \<open>1\<close>, \<open>-1\<close>) are plain integers. The header is not part of the
  repository; the constants below carry the values of the Linux header.
\<close>

type_synonym c_int = "32 word"
type_synonym c_long = "64 word"

definition ACL_UNDEFINED_TAG :: c_int where "ACL_UNDEFINED_TAG = 0x00"
definition ACL_USER_OBJ :: c_int where "ACL_USER_OBJ = 0x01"
definition ACL_USER :: c_int where "ACL_USER = 0x02"
definition ACL_GROUP_OBJ :: c_int where "ACL_GROUP_OBJ = 0x04"
definition ACL_GROUP :: c_int where "ACL_GROUP = 0x08"
definition ACL_MASK :: c_int where "ACL_MASK = 0x10"
definition ACL_OTHER :: c_int where "ACL_OTHER = 0x20"

definition ACL_READ :: c_int where "ACL_READ = 0x04"
definition ACL_WRITE :: c_int where "ACL_WRITE = 0x02"
definition ACL_EXECUTE :: c_int where "ACL_EXECUTE = 0x01"

definition ACL_FIRST_ENTRY :: int where "ACL_FIRST_ENTRY = 0"
definition ACL_NEXT_ENTRY :: int where "ACL_NEXT_ENTRY = 1"

definition ACL_TYPE_ACCESS :: c_int where "ACL_TYPE_ACCESS = 0x8000"
definition ACL_TYPE_DEFAULT :: c_int where "ACL_TYPE_DEFAULT = 0x4000"

section \<open>The ACL backend\<close>

text \<open>
  Modelled from the spec: the POSIX.1e library behind \<^verbatim>\<open>sys/acl.h\<close> (\<^verbatim>\<open>acl_free\<close>,
  \<^verbatim>\<open>acl_get_entry\<close>, \<^verbatim>\<open>acl_valid\<close>, \<dots>) is missing from the repository. The
  spec calls it "the ACL backend" and lists its primitives. An ACL handle
  (\<^verbatim>\<open>acl_t\<close>) is an address in the backend's store; \<^verbatim>\<open>NULL\<close> is \<open>None\<close>. A live handle
  owns an ordered list of records, each with a tag type, an optional qualifier and
  the permission bits, and the one cursor \<^verbatim>\<open>acl_get_entry\<close> walks with. An entry
  descriptor (\<^verbatim>\<open>acl_entry_t\<close>) and a permset descriptor (\<^verbatim>\<open>acl_permset_t\<close>) point
  into the handle that owns the record: the pair of the handle and the record's
  identity in it. Every primitive answers \<open>-1\<close> (or \<^verbatim>\<open>NULL\<close>) to a descriptor that
  is \<^verbatim>\<open>NULL\<close> or not live.
\<close>

record acl_entry_obj =
  etag :: c_int
  equalifier :: "c_int option"
  eperms :: c_int

type_synonym acl_t = nat
type_synonym acl_entry_t = "nat \<times> nat"
type_synonym acl_permset_t = "nat \<times> nat"

record acl_obj =
  aentries :: "(nat \<times> acl_entry_obj) list"
  acurr :: nat
  anext_id :: nat

record libacl =
  acls :: "acl_t \<rightharpoonup> acl_obj"
  next_acl :: nat

text \<open>
  What the backend takes from outside the process: the ACLs of files and
  descriptors and its text grammar, both ways. The spec leaves them to the
  backend, so they are parameters of the model.
\<close>

record platform =
  p_get_file :: "string \<Rightarrow> c_int \<Rightarrow> acl_entry_obj list option"
  p_get_fd :: "c_int \<Rightarrow> acl_entry_obj list option"
  p_from_text :: "string \<Rightarrow> acl_entry_obj list option"
  p_to_text :: "acl_entry_obj list \<Rightarrow> string option"

definition acl_free :: "acl_t \<Rightarrow> libacl \<Rightarrow> int \<times> libacl" where
  "acl_free p L =
     (case acls L p of
        None \<Rightarrow> (-1, L)
      | Some _ \<Rightarrow> (0, L\<lparr>acls := (acls L)(p := None)\<rparr>))"

definition acl_alloc :: "acl_entry_obj list \<Rightarrow> libacl \<Rightarrow> acl_t option \<times> libacl" where
  "acl_alloc es L =
     (Some (next_acl L),
      L\<lparr>acls := (acls L)(next_acl L \<mapsto>
            \<lparr>aentries = enumerate 0 es, acurr = 0, anext_id = length es\<rparr>),
        next_acl := Suc (next_acl L)\<rparr>)"

definition acl_entries :: "libacl \<Rightarrow> acl_t option \<Rightarrow> acl_entry_obj list option" where
  "acl_entries L a =
     (case a of
        None \<Rightarrow> None
      | Some h \<Rightarrow> (case acls L h of None \<Rightarrow> None | Some obj \<Rightarrow> Some (map snd (aentries obj))))"

definition acl_init :: "libacl \<Rightarrow> acl_t option \<times> libacl" where
  "acl_init L = acl_alloc [] L"

definition acl_of_source :: "acl_entry_obj list option \<Rightarrow> libacl \<Rightarrow> acl_t option \<times> libacl" where
  "acl_of_source src L = (case src of None \<Rightarrow> (None, L) | Some es \<Rightarrow> acl_alloc es L)"

definition acl_get_file :: "platform \<Rightarrow> string \<Rightarrow> c_int \<Rightarrow> libacl \<Rightarrow> acl_t option \<times> libacl" where
  "acl_get_file P path ty L = acl_of_source (p_get_file P path ty) L"

definition acl_get_fd :: "platform \<Rightarrow> c_int \<Rightarrow> libacl \<Rightarrow> acl_t option \<times> libacl" where
  "acl_get_fd P fd L = acl_of_source (p_get_fd P fd) L"

definition acl_from_text :: "platform \<Rightarrow> string \<Rightarrow> libacl \<Rightarrow> acl_t option \<times> libacl" where
  "acl_from_text P text L = acl_of_source (p_from_text P text) L"

definition acl_dup :: "acl_t option \<Rightarrow> libacl \<Rightarrow> acl_t option \<times> libacl" where
  "acl_dup a L = acl_of_source (acl_entries L a) L"

definition acl_to_text :: "platform \<Rightarrow> libacl \<Rightarrow> acl_t option \<Rightarrow> string option" where
  "acl_to_text P L a = (case acl_entries L a of None \<Rightarrow> None | Some es \<Rightarrow> p_to_text P es)"

definition acl_free_text :: "string \<Rightarrow> int" where
  \<comment> \<open>\<^verbatim>\<open>acl_free\<close> of a text buffer that \<^verbatim>\<open>acl_to_text\<close> has just returned\<close>
  "acl_free_text text = 0"

text \<open>
  Modelled from the spec: \<^verbatim>\<open>acl_valid\<close> of the missing library, the validity
  primitive. The rules are those of the spec's ValidationEngine, which the
  docstring of \<^verbatim>\<open>ACL.valid\<close> in \<^verbatim>\<open>acl.c\<close> states too; the check counts the entries of
  each tag and compares the qualifiers of the named entries.
\<close>

definition count_tag :: "c_int \<Rightarrow> acl_entry_obj list \<Rightarrow> nat" where
  "count_tag t es = length (filter (\<lambda>e. etag e = t) es)"

definition qualifiers_of :: "c_int \<Rightarrow> acl_entry_obj list \<Rightarrow> c_int option list" where
  "qualifiers_of t es = map equalifier (filter (\<lambda>e. etag e = t) es)"

definition acl_check :: "acl_entry_obj list \<Rightarrow> bool" where
  "acl_check es \<longleftrightarrow>
     count_tag ACL_USER_OBJ es = 1 \<and>
     count_tag ACL_GROUP_OBJ es = 1 \<and>
     count_tag ACL_OTHER es = 1 \<and>
     distinct (qualifiers_of ACL_USER es) \<and>
     distinct (qualifiers_of ACL_GROUP es) \<and>
     (if 0 < count_tag ACL_USER es + count_tag ACL_GROUP es
      then count_tag ACL_MASK es = 1
      else count_tag ACL_MASK es \<le> 1)"

definition acl_valid :: "libacl \<Rightarrow> acl_t option \<Rightarrow> int" where
  "acl_valid L a =
     (case acl_entries L a of
        None \<Rightarrow> -1
      | Some es \<Rightarrow> if acl_check es then 0 else -1)"

text \<open>
  Modelled from the spec: \<^verbatim>\<open>acl_size\<close>, \<^verbatim>\<open>acl_copy_ext\<close> and \<^verbatim>\<open>acl_copy_int\<close> of the
  missing library, the byte codec. The spec keeps the layout of the bytes opaque
  and says of them that the buffer captures the full backend representation, is
  sized by the backend's size query, and imports to an ACL with the text of the
  exported one. The model takes one layout that captures every record in full:
  thirteen bytes per record, the four bytes of the tag, the four bytes of the
  permissions, a flag for the qualifier and the four bytes of the qualifier, low
  byte first. \<^verbatim>\<open>acl_copy_ext\<close> answers \<open>-1\<close> when the caller's buffer is too small,
  \<^verbatim>\<open>acl_copy_int\<close> answers \<^verbatim>\<open>NULL\<close> to a buffer that is not in this layout. The C
  call passes \<^verbatim>\<open>acl_copy_int\<close> the address of the bytes only; the model reads the
  string that \<^verbatim>\<open>ACL_set_state\<close> was given, all of it.
\<close>

definition byte :: "c_int \<Rightarrow> char" where
  "byte v = char_of (unat (v AND 0xFF))"

definition unbyte :: "char \<Rightarrow> c_int" where
  "unbyte c = of_nat (of_char c)"

definition word_bytes :: "c_int \<Rightarrow> string" where
  "word_bytes v = [byte v, byte (drop_bit 8 v), byte (drop_bit 16 v), byte (drop_bit 24 v)]"

definition bytes_word :: "char \<Rightarrow> char \<Rightarrow> char \<Rightarrow> char \<Rightarrow> c_int" where
  "bytes_word b0 b1 b2 b3 =
     unbyte b0 OR push_bit 8 (unbyte b1) OR push_bit 16 (unbyte b2) OR push_bit 24 (unbyte b3)"

definition ext_entry :: "acl_entry_obj \<Rightarrow> string" where
  "ext_entry e =
     word_bytes (etag e) @ word_bytes (eperms e) @
     (case equalifier e of
        None \<Rightarrow> CHR 0x00 # word_bytes 0
      | Some q \<Rightarrow> CHR 0x01 # word_bytes q)"

definition ext_form :: "acl_entry_obj list \<Rightarrow> string" where
  "ext_form es = concat (map ext_entry es)"

fun int_form :: "string \<Rightarrow> acl_entry_obj list option" where
  "int_form [] = Some []"
| "int_form (t0 # t1 # t2 # t3 # p0 # p1 # p2 # p3 # f # q0 # q1 # q2 # q3 # rest) =
     (case int_form rest of
        None \<Rightarrow> None
      | Some es \<Rightarrow>
          Some (\<lparr>etag = bytes_word t0 t1 t2 t3,
                 equalifier = (if f = CHR 0x00 then None else Some (bytes_word q0 q1 q2 q3)),
                 eperms = bytes_word p0 p1 p2 p3\<rparr> # es))"
| "int_form _ = None"

definition acl_size :: "libacl \<Rightarrow> acl_t option \<Rightarrow> int" where
  "acl_size L a =
     (case acl_entries L a of None \<Rightarrow> -1 | Some es \<Rightarrow> int (length (ext_form es)))"

definition acl_copy_ext :: "libacl \<Rightarrow> string \<Rightarrow> acl_t option \<Rightarrow> int \<Rightarrow> int \<times> string" where
  "acl_copy_ext L buf a sz =
     (case acl_entries L a of
        None \<Rightarrow> (-1, buf)
      | Some es \<Rightarrow>
          if int (length (ext_form es)) \<le> sz
          then (int (length (ext_form es)), ext_form es @ drop (length (ext_form es)) buf)
          else (-1, buf))"

definition acl_copy_int :: "string \<Rightarrow> libacl \<Rightarrow> acl_t option \<times> libacl" where
  "acl_copy_int buf L = acl_of_source (int_form buf) L"

text \<open>
  Modelled from the spec: the per-entry primitives of the missing library (create,
  delete, copy, get and set of tag, qualifier and permset, add, remove and clear
  of a permission bit), on top of the lookup and the update of a record through
  its descriptor.
\<close>

definition record_lookup :: "libacl \<Rightarrow> acl_entry_t option \<Rightarrow> acl_entry_obj option" where
  "record_lookup L d =
     (case d of
        None \<Rightarrow> None
      | Some (h, i) \<Rightarrow> (case acls L h of None \<Rightarrow> None | Some obj \<Rightarrow> map_of (aentries obj) i))"

definition record_store :: "acl_entry_t \<Rightarrow> (acl_entry_obj \<Rightarrow> acl_entry_obj) \<Rightarrow> libacl \<Rightarrow> libacl" where
  "record_store d f L =
     (case acls L (fst d) of
        None \<Rightarrow> L
      | Some obj \<Rightarrow>
          L\<lparr>acls := (acls L)(fst d \<mapsto>
               obj\<lparr>aentries := map (\<lambda>(j, r). if j = snd d then (j, f r) else (j, r)) (aentries obj)\<rparr>)\<rparr>)"

definition record_modify :: "acl_entry_t option \<Rightarrow> (acl_entry_obj \<Rightarrow> acl_entry_obj) \<Rightarrow> libacl \<Rightarrow> int \<times> libacl" where
  "record_modify d f L =
     (case d of
        None \<Rightarrow> (-1, L)
      | Some p \<Rightarrow> (case record_lookup L d of None \<Rightarrow> (-1, L) | Some _ \<Rightarrow> (0, record_store p f L)))"

definition acl_get_entry :: "acl_t option \<Rightarrow> int \<Rightarrow> libacl \<Rightarrow> (int \<times> acl_entry_t option) \<times> libacl" where
  "acl_get_entry a which L =
     (case a of
        None \<Rightarrow> ((-1, None), L)
      | Some h \<Rightarrow>
          (case acls L h of
             None \<Rightarrow> ((-1, None), L)
           | Some obj \<Rightarrow>
               if which \<noteq> ACL_FIRST_ENTRY \<and> which \<noteq> ACL_NEXT_ENTRY then ((-1, None), L)
               else
                 let k = (if which = ACL_FIRST_ENTRY then 0 else acurr obj) in
                 if k < length (aentries obj)
                 then ((1, Some (h, fst (aentries obj ! k))),
                       L\<lparr>acls := (acls L)(h \<mapsto> obj\<lparr>acurr := Suc k\<rparr>)\<rparr>)
                 else ((0, None), L\<lparr>acls := (acls L)(h \<mapsto> obj\<lparr>acurr := k\<rparr>)\<rparr>)))"

definition acl_create_entry :: "acl_t option \<Rightarrow> libacl \<Rightarrow> (int \<times> acl_t option \<times> acl_entry_t option) \<times> libacl" where
  "acl_create_entry a L =
     (case a of
        None \<Rightarrow> ((-1, a, None), L)
      | Some h \<Rightarrow>
          (case acls L h of
             None \<Rightarrow> ((-1, a, None), L)
           | Some obj \<Rightarrow>
               ((0, a, Some (h, anext_id obj)),
                L\<lparr>acls := (acls L)(h \<mapsto>
                     obj\<lparr>aentries := aentries obj @
                            [(anext_id obj, \<lparr>etag = ACL_UNDEFINED_TAG, equalifier = None, eperms = 0\<rparr>)],
                         anext_id := Suc (anext_id obj)\<rparr>)\<rparr>)))"

definition acl_delete_entry :: "acl_t option \<Rightarrow> acl_entry_t option \<Rightarrow> libacl \<Rightarrow> int \<times> libacl" where
  \<comment> \<open>needs a live handle and a live record, and unlinks the record from the ACL that holds
      it; the spec states no test of the record against the handle, and there is none\<close>
  "acl_delete_entry a d L =
     (case a of
        None \<Rightarrow> (-1, L)
      | Some h \<Rightarrow>
          (case acls L h of
             None \<Rightarrow> (-1, L)
           | Some _ \<Rightarrow>
               (case d of
                  None \<Rightarrow> (-1, L)
                | Some (h', i) \<Rightarrow>
                    (case acls L h' of
                       None \<Rightarrow> (-1, L)
                     | Some obj \<Rightarrow>
                         if i \<in> fst ` set (aentries obj)
                         then (0, L\<lparr>acls := (acls L)(h' \<mapsto>
                                      obj\<lparr>aentries := filter (\<lambda>(j, r). j \<noteq> i) (aentries obj)\<rparr>)\<rparr>)
                         else (-1, L)))))"

definition recognized_tag :: "c_int \<Rightarrow> bool" where
  "recognized_tag t \<longleftrightarrow>
     t \<in> set [ACL_UNDEFINED_TAG, ACL_USER_OBJ, ACL_USER, ACL_GROUP_OBJ, ACL_GROUP, ACL_MASK, ACL_OTHER]"

definition acl_get_tag_type :: "libacl \<Rightarrow> acl_entry_t option \<Rightarrow> int \<times> c_int" where
  "acl_get_tag_type L d = (case record_lookup L d of None \<Rightarrow> (-1, 0) | Some r \<Rightarrow> (0, etag r))"

definition acl_set_tag_type :: "acl_entry_t option \<Rightarrow> c_int \<Rightarrow> libacl \<Rightarrow> int \<times> libacl" where
  "acl_set_tag_type d t L =
     (if recognized_tag t then record_modify d (\<lambda>r. r\<lparr>etag := t\<rparr>) L else (-1, L))"

definition acl_get_qualifier :: "libacl \<Rightarrow> acl_entry_t option \<Rightarrow> c_int option" where
  "acl_get_qualifier L d = (case record_lookup L d of None \<Rightarrow> None | Some r \<Rightarrow> equalifier r)"

definition acl_set_qualifier :: "acl_entry_t option \<Rightarrow> c_int \<Rightarrow> libacl \<Rightarrow> int \<times> libacl" where
  "acl_set_qualifier d q L = record_modify d (\<lambda>r. r\<lparr>equalifier := Some q\<rparr>) L"

definition acl_get_permset :: "libacl \<Rightarrow> acl_entry_t option \<Rightarrow> int \<times> acl_permset_t option" where
  "acl_get_permset L d = (case record_lookup L d of None \<Rightarrow> (-1, None) | Some _ \<Rightarrow> (0, d))"

definition acl_set_permset :: "acl_entry_t option \<Rightarrow> acl_permset_t option \<Rightarrow> libacl \<Rightarrow> int \<times> libacl" where
  "acl_set_permset d ps L =
     (case record_lookup L ps of
        None \<Rightarrow> (-1, L)
      | Some src \<Rightarrow> record_modify d (\<lambda>r. r\<lparr>eperms := eperms src\<rparr>) L)"

definition acl_copy_entry :: "acl_entry_t option \<Rightarrow> acl_entry_t option \<Rightarrow> libacl \<Rightarrow> int \<times> libacl" where
  "acl_copy_entry dest src L =
     (case record_lookup L src of
        None \<Rightarrow> (-1, L)
      | Some r' \<Rightarrow> record_modify dest (\<lambda>r. r') L)"

definition acl_clear_perms :: "acl_permset_t option \<Rightarrow> libacl \<Rightarrow> int \<times> libacl" where
  "acl_clear_perms ps L = record_modify ps (\<lambda>r. r\<lparr>eperms := 0\<rparr>) L"

definition valid_perm :: "c_int \<Rightarrow> bool" where
  "valid_perm perm \<longleftrightarrow> perm AND NOT (ACL_READ OR ACL_WRITE OR ACL_EXECUTE) = 0"

definition acl_add_perm :: "acl_permset_t option \<Rightarrow> c_int \<Rightarrow> libacl \<Rightarrow> int \<times> libacl" where
  "acl_add_perm ps perm L =
     (if valid_perm perm then record_modify ps (\<lambda>r. r\<lparr>eperms := eperms r OR perm\<rparr>) L
      else (-1, L))"

definition acl_delete_perm :: "acl_permset_t option \<Rightarrow> c_int \<Rightarrow> libacl \<Rightarrow> int \<times> libacl" where
  "acl_delete_perm ps perm L =
     (if valid_perm perm then record_modify ps (\<lambda>r. r\<lparr>eperms := eperms r AND NOT perm\<rparr>) L
      else (-1, L))"

text \<open>
  Modelled from the spec: \<^verbatim>\<open>get_perm\<close> comes from \<^verbatim>\<open>os_linux.c\<close>, which \<^verbatim>\<open>acl.c\<close>
  includes and the repository does not hold. The spec's \<open>Get(right)\<close> reads one bit
  of the permset.
\<close>

definition get_perm :: "libacl \<Rightarrow> acl_permset_t option \<Rightarrow> c_int \<Rightarrow> int" where
  "get_perm L ps perm =
     (case record_lookup L ps of
        None \<Rightarrow> -1
      | Some r \<Rightarrow> if \<not> valid_perm perm then -1 else if eperms r AND perm \<noteq> 0 then 1 else 0)"

section \<open>The interpreter: objects, references and the error indicator\<close>

text \<open>
  The three object structs of \<^verbatim>\<open>acl.c\<close> start with \<^verbatim>\<open>PyObject_HEAD\<close>; of the head the
  model keeps the reference count. Objects live in a heap per type, addressed by
  one allocator, so that two objects are the same object exactly when their
  addresses are equal. A C function that fails returns \<^verbatim>\<open>NULL\<close> (\<open>None\<close>) or \<open>-1\<close> and
  leaves the exception in the interpreter's error indicator \<open>curexc\<close>.
  Allocation of an object is taken to succeed: the interpreter's allocator is not
  part of the repository, and the \<^verbatim>\<open>NULL\<close> checks that follow an allocation in the
  source have no branch here.
\<close>

datatype pyexc =
  PyExc_ValueError | PyExc_TypeError | PyExc_IOError | PyExc_AttributeError
| PyExc_OverflowError | PyExc_SystemError

datatype pyval =
  PyNone | PyBool bool | PyInt c_long | PyString string
| PyACL nat | PyEntry nat | PyPermset nat

record PyObject_HEAD =
  ob_refcnt :: int

record ACL_Object = PyObject_HEAD +
  acl :: "acl_t option"
  entry_id :: int

record Entry_Object = PyObject_HEAD +
  parent_acl :: "nat option"
  entry :: "acl_entry_t option"

record Permset_Object = PyObject_HEAD +
  parent_entry :: "nat option"
  permset :: "acl_permset_t option"

record world =
  ACLs :: "nat \<Rightarrow> ACL_Object"
  Entries :: "nat \<Rightarrow> Entry_Object"
  Permsets :: "nat \<Rightarrow> Permset_Object"
  allocated :: "nat set"
  next_ob :: nat
  curexc :: "pyexc option"
  unraisable :: "nat list"
  lib :: libacl

definition PyErr_SetString :: "pyexc \<Rightarrow> world \<Rightarrow> world" where
  "PyErr_SetString e w = w\<lparr>curexc := Some e\<rparr>"

definition PyErr_SetFromErrno :: "pyexc \<Rightarrow> world \<Rightarrow> world" where
  "PyErr_SetFromErrno e w = w\<lparr>curexc := Some e\<rparr>"

definition PyErr_WriteUnraisable :: "nat \<Rightarrow> world \<Rightarrow> world" where
  \<comment> \<open>prints the report for \<open>obj\<close> on the interpreter's error stream and clears the indicator\<close>
  "PyErr_WriteUnraisable obj w = w\<lparr>unraisable := unraisable w @ [obj], curexc := None\<rparr>"

definition PyObject_DEL :: "nat \<Rightarrow> world \<Rightarrow> world" where
  "PyObject_DEL obj w = w\<lparr>allocated := allocated w - {obj}\<rparr>"

definition PyInt_Check :: "pyval \<Rightarrow> bool" where
  \<comment> \<open>a Python bool is an int\<close>
  "PyInt_Check v = (case v of PyInt _ \<Rightarrow> True | PyBool _ \<Rightarrow> True | _ \<Rightarrow> False)"

definition PyInt_AsLong :: "pyval \<Rightarrow> c_long" where
  "PyInt_AsLong v = (case v of PyInt n \<Rightarrow> n | PyBool b \<Rightarrow> (if b then 1 else 0) | _ \<Rightarrow> -1)"

definition Py_INCREF_ACL :: "nat \<Rightarrow> world \<Rightarrow> world" where
  "Py_INCREF_ACL p w = w\<lparr>ACLs := (ACLs w)(p := (ACLs w p)\<lparr>ob_refcnt := ob_refcnt (ACLs w p) + 1\<rparr>)\<rparr>"

definition Py_INCREF_Entry :: "nat \<Rightarrow> world \<Rightarrow> world" where
  "Py_INCREF_Entry p w =
     w\<lparr>Entries := (Entries w)(p := (Entries w p)\<lparr>ob_refcnt := ob_refcnt (Entries w p) + 1\<rparr>)\<rparr>"

text \<open>
  The spec's taxonomy of failures, and the exception each one is in \<^verbatim>\<open>acl.c\<close>:
  a \<^verbatim>\<open>ValueError\<close> or \<^verbatim>\<open>TypeError\<close> for an argument the wrapper refuses itself, an
  \<^verbatim>\<open>IOError\<close> from \<^verbatim>\<open>errno\<close> for a failed backend primitive, an \<^verbatim>\<open>AttributeError\<close>
  for an absent record.
\<close>

datatype failure = InvalidArgument | BackendError | UninitializedState

definition failure_of :: "pyexc \<Rightarrow> failure option" where
  "failure_of e =
     (case e of
        PyExc_ValueError \<Rightarrow> Some InvalidArgument
      | PyExc_TypeError \<Rightarrow> Some InvalidArgument
      | PyExc_IOError \<Rightarrow> Some BackendError
      | PyExc_AttributeError \<Rightarrow> Some UninitializedState
      | _ \<Rightarrow> None)"

definition fails_with :: "world \<Rightarrow> failure \<Rightarrow> bool" where
  "fails_with w f \<longleftrightarrow> (case curexc w of None \<Rightarrow> False | Some e \<Rightarrow> failure_of e = Some f)"

section \<open>The ACL type\<close>

definition ACL_new :: "world \<Rightarrow> nat \<times> world" where
  "ACL_new w =
     (next_ob w,
      w\<lparr>ACLs := (ACLs w)(next_ob w := \<lparr>ob_refcnt = 1, acl = None, entry_id = ACL_FIRST_ENTRY\<rparr>),
        allocated := insert (next_ob w) (allocated w),
        next_ob := Suc (next_ob w)\<rparr>)"

text \<open>
  The arguments of \<^verbatim>\<open>ACL_init\<close> as \<^verbatim>\<open>PyArg_ParseTupleAndKeywords\<close> leaves them for the
  format \<^verbatim>\<open>"|sisO!s"\<close> and the keywords \<^verbatim>\<open>file\<close>, \<^verbatim>\<open>fd\<close>, \<^verbatim>\<open>text\<close>, \<^verbatim>\<open>acl\<close>, \<^verbatim>\<open>filedef\<close>:
  a keyword that is not passed keeps the initial value of its variable.
\<close>

record init_args =
  arg_file :: "string option"
  arg_fd :: c_int
  arg_text :: "string option"
  arg_thesrc :: "nat option"
  arg_filedef :: "string option"

definition conv_s :: "pyval \<Rightarrow> pyexc + string" where
  "conv_s v =
     (case v of
        PyString s \<Rightarrow> if CHR 0x00 \<in> set s then Inl PyExc_TypeError else Inr s
      | _ \<Rightarrow> Inl PyExc_TypeError)"

definition conv_i :: "pyval \<Rightarrow> pyexc + c_int" where
  "conv_i v =
     (if PyInt_Check v
      then (if sint (PyInt_AsLong v) < - (2 ^ 31) \<or> 2 ^ 31 \<le> sint (PyInt_AsLong v)
            then Inl PyExc_OverflowError
            else Inr (ucast (PyInt_AsLong v)))
      else Inl PyExc_TypeError)"

definition parse_keyword :: "string \<times> pyval \<Rightarrow> init_args \<Rightarrow> pyexc + init_args" where
  "parse_keyword kv a =
     (if fst kv = ''file'' then
        (case conv_s (snd kv) of Inl e \<Rightarrow> Inl e | Inr s \<Rightarrow> Inr (a\<lparr>arg_file := Some s\<rparr>))
      else if fst kv = ''fd'' then
        (case conv_i (snd kv) of Inl e \<Rightarrow> Inl e | Inr i \<Rightarrow> Inr (a\<lparr>arg_fd := i\<rparr>))
      else if fst kv = ''text'' then
        (case conv_s (snd kv) of Inl e \<Rightarrow> Inl e | Inr s \<Rightarrow> Inr (a\<lparr>arg_text := Some s\<rparr>))
      else if fst kv = ''acl'' then
        (case snd kv of PyACL p \<Rightarrow> Inr (a\<lparr>arg_thesrc := Some p\<rparr>) | _ \<Rightarrow> Inl PyExc_TypeError)
      else if fst kv = ''filedef'' then
        (case conv_s (snd kv) of Inl e \<Rightarrow> Inl e | Inr s \<Rightarrow> Inr (a\<lparr>arg_filedef := Some s\<rparr>))
      else Inl PyExc_TypeError)"

fun parse_keywords :: "(string \<times> pyval) list \<Rightarrow> init_args \<Rightarrow> pyexc + init_args" where
  "parse_keywords [] a = Inr a"
| "parse_keywords (kv # kvs) a =
     (case parse_keyword kv a of Inl e \<Rightarrow> Inl e | Inr a' \<Rightarrow> parse_keywords kvs a')"

definition ACL_init_parse :: "(string \<times> pyval) list option \<Rightarrow> pyexc + init_args" where
  "ACL_init_parse keywds =
     parse_keywords (case keywds of None \<Rightarrow> [] | Some d \<Rightarrow> d)
       \<lparr>arg_file = None, arg_fd = -1, arg_text = None, arg_thesrc = None, arg_filedef = None\<rparr>"

definition ACL_init_acquire :: "platform \<Rightarrow> init_args \<Rightarrow> world \<Rightarrow> libacl \<Rightarrow> acl_t option \<times> libacl" where
  "ACL_init_acquire P a w L =
     (case arg_file a of
        Some file \<Rightarrow> acl_get_file P file ACL_TYPE_ACCESS L
      | None \<Rightarrow>
     (case arg_text a of
        Some text \<Rightarrow> acl_from_text P text L
      | None \<Rightarrow>
     if arg_fd a \<noteq> -1 then acl_get_fd P (arg_fd a) L
     else
     (case arg_thesrc a of
        Some thesrc \<Rightarrow> acl_dup (acl (ACLs w thesrc)) L
      | None \<Rightarrow>
     (case arg_filedef a of
        Some filedef \<Rightarrow> acl_get_file P filedef ACL_TYPE_DEFAULT L
      | None \<Rightarrow> acl_init L))))"

definition ACL_init :: "platform \<Rightarrow> nat \<Rightarrow> pyval list \<Rightarrow> (string \<times> pyval) list option \<Rightarrow> world \<Rightarrow> int \<times> world" where
  "ACL_init P obj args keywds w =
     (if length args \<noteq> 0 \<or> (case keywds of None \<Rightarrow> False | Some d \<Rightarrow> 1 < length d)
      then (-1, PyErr_SetString PyExc_ValueError w)
      else
        (case ACL_init_parse keywds of
           Inl e \<Rightarrow> (-1, PyErr_SetString e w)
         | Inr a \<Rightarrow>
             let L0 = (case acl (ACLs w obj) of
                         None \<Rightarrow> lib w
                       | Some old \<Rightarrow> snd (acl_free old (lib w)));
                 r = ACL_init_acquire P a w L0;
                 w1 = w\<lparr>ACLs := (ACLs w)(obj := (ACLs w obj)\<lparr>acl := fst r\<rparr>), lib := snd r\<rparr>
             in if fst r = None then (-1, PyErr_SetFromErrno PyExc_IOError w1) else (0, w1)))"

definition ACL_dealloc :: "nat \<Rightarrow> world \<Rightarrow> world" where
  "ACL_dealloc obj w =
     (let have_error = (curexc w \<noteq> None);
          err = curexc w;
          w1 = (if have_error then w\<lparr>curexc := None\<rparr> else w);
          w2 = (case acl (ACLs w1 obj) of
                  None \<Rightarrow> w1
                | Some h \<Rightarrow>
                    (let r = acl_free h (lib w1) in
                     if fst r \<noteq> 0 then PyErr_WriteUnraisable obj (w1\<lparr>lib := snd r\<rparr>)
                     else w1\<lparr>lib := snd r\<rparr>));
          w3 = (if have_error then w2\<lparr>curexc := err\<rparr> else w2)
      in PyObject_DEL obj w3)"

definition Py_DECREF_ACL :: "nat \<Rightarrow> world \<Rightarrow> world" where
  "Py_DECREF_ACL p w =
     (let w' = w\<lparr>ACLs := (ACLs w)(p := (ACLs w p)\<lparr>ob_refcnt := ob_refcnt (ACLs w p) - 1\<rparr>)\<rparr>
      in if ob_refcnt (ACLs w' p) \<noteq> 0 then w' else ACL_dealloc p w')"

definition ACL_str :: "platform \<Rightarrow> nat \<Rightarrow> world \<Rightarrow> pyval option \<times> world" where
  "ACL_str P obj w =
     (case acl_to_text P (lib w) (acl (ACLs w obj)) of
        None \<Rightarrow> (None, PyErr_SetFromErrno PyExc_IOError w)
      | Some text \<Rightarrow>
          if acl_free_text text \<noteq> 0 then (None, PyErr_SetFromErrno PyExc_IOError w)
          else (Some (PyString text), w))"

definition ACL_valid :: "nat \<Rightarrow> world \<Rightarrow> pyval option \<times> world" where
  "ACL_valid obj w =
     (if acl_valid (lib w) (acl (ACLs w obj)) = -1 then (Some (PyBool False), w)
      else (Some (PyBool True), w))"

definition ACL_get_state :: "nat \<Rightarrow> world \<Rightarrow> pyval option \<times> world" where
  \<comment> \<open>the new string of \<open>sz\<close> bytes starts as zero bytes; a negative size is a \<^verbatim>\<open>SystemError\<close>\<close>
  "ACL_get_state obj w =
     (let sz = acl_size (lib w) (acl (ACLs w obj)) in
      if sz = -1 then (None, PyErr_SetFromErrno PyExc_IOError w)
      else if sz < 0 then (None, PyErr_SetString PyExc_SystemError w)
      else
        (let r = acl_copy_ext (lib w) (replicate (nat sz) (CHR 0x00)) (acl (ACLs w obj)) sz in
         if fst r = -1 then (None, PyErr_SetFromErrno PyExc_IOError w)
         else (Some (PyString (snd r)), w)))"

definition ACL_set_state :: "nat \<Rightarrow> pyval list \<Rightarrow> world \<Rightarrow> pyval option \<times> world" where
  "ACL_set_state obj args w =
     (case args of
        [PyString buf] \<Rightarrow>
          (let r = acl_copy_int buf (lib w) in
           case fst r of
             None \<Rightarrow> (None, PyErr_SetFromErrno PyExc_IOError (w\<lparr>lib := snd r\<rparr>))
           | Some ptr \<Rightarrow>
               (case acl (ACLs w obj) of
                  None \<Rightarrow>
                    (Some PyNone,
                     w\<lparr>ACLs := (ACLs w)(obj := (ACLs w obj)\<lparr>acl := Some ptr\<rparr>), lib := snd r\<rparr>)
                | Some old \<Rightarrow>
                    (let f = acl_free old (snd r) in
                     if fst f = -1
                     then (None, PyErr_SetFromErrno PyExc_IOError (w\<lparr>lib := snd f\<rparr>))
                     else (Some PyNone,
                           w\<lparr>ACLs := (ACLs w)(obj := (ACLs w obj)\<lparr>acl := Some ptr\<rparr>),
                             lib := snd f\<rparr>))))
      | _ \<Rightarrow> (None, PyErr_SetString PyExc_TypeError w))"

definition PyType_GenericNew_Entry :: "world \<Rightarrow> nat \<times> world" where
  \<comment> \<open>\<^verbatim>\<open>tp_alloc\<close> hands out zeroed memory: both pointers of the new object are \<^verbatim>\<open>NULL\<close>\<close>
  "PyType_GenericNew_Entry w =
     (next_ob w,
      w\<lparr>Entries := (Entries w)(next_ob w := \<lparr>ob_refcnt = 1, parent_acl = None, entry = None\<rparr>),
        allocated := insert (next_ob w) (allocated w),
        next_ob := Suc (next_ob w)\<rparr>)"

definition PyType_GenericNew_Permset :: "world \<Rightarrow> nat \<times> world" where
  "PyType_GenericNew_Permset w =
     (next_ob w,
      w\<lparr>Permsets := (Permsets w)(next_ob w := \<lparr>ob_refcnt = 1, parent_entry = None, permset = None\<rparr>),
        allocated := insert (next_ob w) (allocated w),
        next_ob := Suc (next_ob w)\<rparr>)"

definition ACL_iter :: "nat \<Rightarrow> world \<Rightarrow> pyval option \<times> world" where
  "ACL_iter obj w =
     (Some (PyACL obj),
      Py_INCREF_ACL obj (w\<lparr>ACLs := (ACLs w)(obj := (ACLs w obj)\<lparr>entry_id := ACL_FIRST_ENTRY\<rparr>)\<rparr>))"

definition ACL_iternext :: "nat \<Rightarrow> world \<Rightarrow> pyval option \<times> world" where
  "ACL_iternext obj w =
     (let r = acl_get_entry (acl (ACLs w obj)) (entry_id (ACLs w obj)) (lib w);
          nerr = fst (fst r);
          the_entry_t = snd (fst r);
          w1 = w\<lparr>ACLs := (ACLs w)(obj := (ACLs w obj)\<lparr>entry_id := ACL_NEXT_ENTRY\<rparr>), lib := snd r\<rparr>
      in if nerr = -1 then (None, PyErr_SetFromErrno PyExc_IOError w1)
         else if nerr = 0 then (None, w1)
         else
           (let n = PyType_GenericNew_Entry w1;
                w2 = snd n;
                w3 = w2\<lparr>Entries := (Entries w2)(fst n :=
                          (Entries w2 (fst n))\<lparr>entry := the_entry_t, parent_acl := Some obj\<rparr>)\<rparr>
            in (Some (PyEntry (fst n)), Py_INCREF_ACL obj w3)))"

definition ACL_delentry :: "nat \<Rightarrow> pyval list \<Rightarrow> world \<Rightarrow> pyval option \<times> world" where
  "ACL_delentry obj args w =
     (case args of
        [PyEntry e] \<Rightarrow>
          (let r = acl_delete_entry (acl (ACLs w obj)) (entry (Entries w e)) (lib w) in
           if fst r = -1 then (None, PyErr_SetFromErrno PyExc_IOError (w\<lparr>lib := snd r\<rparr>))
           else (Some PyNone, w\<lparr>lib := snd r\<rparr>))
      | _ \<Rightarrow> (None, PyErr_SetString PyExc_TypeError w))"

section \<open>The Entry type\<close>

definition Entry_new :: "world \<Rightarrow> nat \<times> world" where
  "Entry_new w =
     (let n = PyType_GenericNew_Entry w; w1 = snd n
      in (fst n, w1\<lparr>Entries := (Entries w1)(fst n :=
                       (Entries w1 (fst n))\<lparr>entry := None, parent_acl := None\<rparr>)\<rparr>))"

definition Entry_init :: "nat \<Rightarrow> pyval list \<Rightarrow> world \<Rightarrow> int \<times> world" where
  "Entry_init obj args w =
     (case args of
        [PyACL parent] \<Rightarrow>
          (let r = acl_create_entry (acl (ACLs w parent)) (lib w) in
           if fst (fst r) = -1 then (-1, PyErr_SetFromErrno PyExc_IOError (w\<lparr>lib := snd r\<rparr>))
           else
             (0, Py_INCREF_ACL parent
                   (w\<lparr>ACLs := (ACLs w)(parent := (ACLs w parent)\<lparr>acl := fst (snd (fst r))\<rparr>),
                      Entries := (Entries w)(obj :=
                        (Entries w obj)\<lparr>entry := snd (snd (fst r)), parent_acl := Some parent\<rparr>),
                      lib := snd r\<rparr>)))
      | _ \<Rightarrow> (-1, PyErr_SetString PyExc_TypeError w))"

definition Entry_dealloc :: "nat \<Rightarrow> world \<Rightarrow> world" where
  "Entry_dealloc obj w =
     (let have_error = (curexc w \<noteq> None);
          err = curexc w;
          w1 = (if have_error then w\<lparr>curexc := None\<rparr> else w);
          w2 = (case parent_acl (Entries w1 obj) of
                  None \<Rightarrow> w1
                | Some p \<Rightarrow>
                    (let w' = Py_DECREF_ACL p w1
                     in w'\<lparr>Entries := (Entries w')(obj := (Entries w' obj)\<lparr>parent_acl := None\<rparr>)\<rparr>));
          w3 = (if have_error then w2\<lparr>curexc := err\<rparr> else w2)
      in PyObject_DEL obj w3)"

definition Py_DECREF_Entry :: "nat \<Rightarrow> world \<Rightarrow> world" where
  "Py_DECREF_Entry p w =
     (let w' = w\<lparr>Entries := (Entries w)(p := (Entries w p)\<lparr>ob_refcnt := ob_refcnt (Entries w p) - 1\<rparr>)\<rparr>
      in if ob_refcnt (Entries w' p) \<noteq> 0 then w' else Entry_dealloc p w')"

text \<open>The decimal digits \<^verbatim>\<open>%d\<close> prints for a C \<^verbatim>\<open>int\<close>.\<close>

fun digits :: "nat \<Rightarrow> string" where
  "digits n = (if n < 10 then [char_of (48 + n)] else digits (n div 10) @ [char_of (48 + n mod 10)])"

definition format_d :: "c_int \<Rightarrow> string" where
  "format_d v = (if sint v < 0 then CHR ''-'' # digits (nat (- sint v)) else digits (nat (sint v)))"

definition Entry_str :: "nat \<Rightarrow> world \<Rightarrow> pyval option \<times> world" where
  "Entry_str obj w =
     (let t = acl_get_tag_type (lib w) (entry (Entries w obj)); tag = snd t in
      if fst t = -1 then (None, PyErr_SetFromErrno PyExc_IOError w)
      else
        (let q = (if tag = ACL_USER \<or> tag = ACL_GROUP
                  then acl_get_qualifier (lib w) (entry (Entries w obj))
                  else Some 0)
         in case q of
              None \<Rightarrow> (None, PyErr_SetFromErrno PyExc_IOError w)
            | Some qualifier \<Rightarrow>
                (Some (PyString (''ACL entry for '' @
                   (if tag = ACL_UNDEFINED_TAG then ''undefined type''
                    else if tag = ACL_USER_OBJ then ''the owner''
                    else if tag = ACL_GROUP_OBJ then ''the group''
                    else if tag = ACL_OTHER then ''the others''
                    else if tag = ACL_USER then ''user with uid '' @ format_d qualifier
                    else if tag = ACL_GROUP then ''group with gid '' @ format_d qualifier
                    else if tag = ACL_MASK then ''the mask''
                    else ''UNKNOWN_TAG_TYPE!''))), w)))"

definition Entry_set_tag_type :: "nat \<Rightarrow> pyval option \<Rightarrow> world \<Rightarrow> int \<times> world" where
  "Entry_set_tag_type obj val w =
     (case val of
        None \<Rightarrow> (-1, PyErr_SetString PyExc_TypeError w)
      | Some v \<Rightarrow>
          if \<not> PyInt_Check v then (-1, PyErr_SetString PyExc_TypeError w)
          else
            (let r = acl_set_tag_type (entry (Entries w obj)) (ucast (PyInt_AsLong v)) (lib w) in
             if fst r = -1 then (-1, PyErr_SetFromErrno PyExc_IOError (w\<lparr>lib := snd r\<rparr>))
             else (0, w\<lparr>lib := snd r\<rparr>)))"

definition Entry_get_tag_type :: "nat \<Rightarrow> world \<Rightarrow> pyval option \<times> world" where
  "Entry_get_tag_type obj w =
     (if entry (Entries w obj) = None then (None, PyErr_SetString PyExc_AttributeError w)
      else
        (let t = acl_get_tag_type (lib w) (entry (Entries w obj)) in
         if fst t = -1 then (None, PyErr_SetFromErrno PyExc_IOError w)
         else (Some (PyInt (scast (snd t))), w)))"

definition Entry_set_qualifier :: "nat \<Rightarrow> pyval option \<Rightarrow> world \<Rightarrow> int \<times> world" where
  "Entry_set_qualifier obj val w =
     (case val of
        None \<Rightarrow> (-1, PyErr_SetString PyExc_TypeError w)
      | Some v \<Rightarrow>
          if \<not> PyInt_Check v then (-1, PyErr_SetString PyExc_TypeError w)
          else
            (let r = acl_set_qualifier (entry (Entries w obj)) (ucast (PyInt_AsLong v)) (lib w) in
             if fst r = -1 then (-1, PyErr_SetFromErrno PyExc_IOError (w\<lparr>lib := snd r\<rparr>))
             else (0, w\<lparr>lib := snd r\<rparr>)))"

definition Entry_get_qualifier :: "nat \<Rightarrow> world \<Rightarrow> pyval option \<times> world" where
  "Entry_get_qualifier obj w =
     (if entry (Entries w obj) = None then (None, PyErr_SetString PyExc_AttributeError w)
      else
        (case acl_get_qualifier (lib w) (entry (Entries w obj)) of
           None \<Rightarrow> (None, PyErr_SetFromErrno PyExc_IOError w)
         | Some q \<Rightarrow> (Some (PyInt (scast q)), w)))"

definition Entry_get_parent :: "nat \<Rightarrow> world \<Rightarrow> (pyval option \<times> world) option" where
  \<comment> \<open>\<^verbatim>\<open>Py_INCREF\<close> writes through \<^verbatim>\<open>parent_acl\<close> unchecked: with a \<^verbatim>\<open>NULL\<close> parent the process
      faults and the call has no result, which is \<open>None\<close>\<close>
  "Entry_get_parent obj w =
     (case parent_acl (Entries w obj) of
        None \<Rightarrow> None
      | Some p \<Rightarrow> Some (Some (PyACL p), Py_INCREF_ACL p w))"

definition Permset_new :: "world \<Rightarrow> nat \<times> world" where
  "Permset_new w =
     (let n = PyType_GenericNew_Permset w; w1 = snd n
      in (fst n, w1\<lparr>Permsets := (Permsets w1)(fst n :=
                       (Permsets w1 (fst n))\<lparr>permset := None, parent_entry := None\<rparr>)\<rparr>))"

definition Entry_get_permset :: "nat \<Rightarrow> world \<Rightarrow> pyval option \<times> world" where
  "Entry_get_permset obj w =
     (let n = Permset_new w; p = fst n; w1 = snd n;
          r = acl_get_permset (lib w1) (entry (Entries w1 obj))
      in if fst r = -1 then (None, PyErr_SetFromErrno PyExc_IOError w1)
         else
           (Some (PyPermset p),
            Py_INCREF_Entry obj
              (w1\<lparr>Permsets := (Permsets w1)(p :=
                     (Permsets w1 p)\<lparr>permset := snd r, parent_entry := Some obj\<rparr>)\<rparr>)))"

definition Entry_set_permset :: "nat \<Rightarrow> pyval \<Rightarrow> world \<Rightarrow> int \<times> world" where
  "Entry_set_permset obj v w =
     (case v of
        PyPermset p \<Rightarrow>
          (let r = acl_set_permset (entry (Entries w obj)) (permset (Permsets w p)) (lib w) in
           if fst r = -1 then (-1, PyErr_SetFromErrno PyExc_IOError (w\<lparr>lib := snd r\<rparr>))
           else (0, w\<lparr>lib := snd r\<rparr>))
      | _ \<Rightarrow> (-1, PyErr_SetString PyExc_TypeError w))"

definition Entry_copy :: "nat \<Rightarrow> pyval list \<Rightarrow> world \<Rightarrow> pyval option \<times> world" where
  "Entry_copy obj args w =
     (case args of
        [PyEntry other] \<Rightarrow>
          (let r = acl_copy_entry (entry (Entries w obj)) (entry (Entries w other)) (lib w) in
           if fst r = -1 then (None, PyErr_SetFromErrno PyExc_IOError (w\<lparr>lib := snd r\<rparr>))
           else (Some PyNone, w\<lparr>lib := snd r\<rparr>))
      | _ \<Rightarrow> (None, PyErr_SetString PyExc_TypeError w))"

section \<open>The Permset type\<close>

definition Permset_init :: "nat \<Rightarrow> pyval list \<Rightarrow> world \<Rightarrow> int \<times> world" where
  "Permset_init obj args w =
     (case args of
        [PyEntry parent] \<Rightarrow>
          (let r = acl_get_permset (lib w) (entry (Entries w parent)) in
           if fst r = -1 then (-1, PyErr_SetFromErrno PyExc_IOError w)
           else
             (0, Py_INCREF_Entry parent
                   (w\<lparr>Permsets := (Permsets w)(obj :=
                        (Permsets w obj)\<lparr>permset := snd r, parent_entry := Some parent\<rparr>)\<rparr>)))
      | _ \<Rightarrow> (-1, PyErr_SetString PyExc_TypeError w))"

definition Permset_dealloc :: "nat \<Rightarrow> world \<Rightarrow> world" where
  "Permset_dealloc obj w =
     (let have_error = (curexc w \<noteq> None);
          err = curexc w;
          w1 = (if have_error then w\<lparr>curexc := None\<rparr> else w);
          w2 = (case parent_entry (Permsets w1 obj) of
                  None \<Rightarrow> w1
                | Some p \<Rightarrow>
                    (let w' = Py_DECREF_Entry p w1
                     in w'\<lparr>Permsets := (Permsets w')(obj := (Permsets w' obj)\<lparr>parent_entry := None\<rparr>)\<rparr>));
          w3 = (if have_error then w2\<lparr>curexc := err\<rparr> else w2)
      in PyObject_DEL obj w3)"

definition Permset_str :: "nat \<Rightarrow> world \<Rightarrow> pyval option \<times> world" where
  "Permset_str obj w =
     (Some (PyString
        [if get_perm (lib w) (permset (Permsets w obj)) ACL_READ \<noteq> 0 then CHR ''r'' else CHR ''-'',
         if get_perm (lib w) (permset (Permsets w obj)) ACL_WRITE \<noteq> 0 then CHR ''w'' else CHR ''-'',
         if get_perm (lib w) (permset (Permsets w obj)) ACL_EXECUTE \<noteq> 0 then CHR ''x'' else CHR ''-'']),
      w)"

definition Permset_clear :: "nat \<Rightarrow> world \<Rightarrow> pyval option \<times> world" where
  "Permset_clear obj w =
     (let r = acl_clear_perms (permset (Permsets w obj)) (lib w) in
      if fst r = -1 then (None, PyErr_SetFromErrno PyExc_IOError (w\<lparr>lib := snd r\<rparr>))
      else (Some PyNone, w\<lparr>lib := snd r\<rparr>))"

text \<open>
  The getter and the setter of a right take the permission bit as their closure
  argument: \<^verbatim>\<open>ACL_EXECUTE\<close>, \<^verbatim>\<open>ACL_READ\<close> or \<^verbatim>\<open>ACL_WRITE\<close> in \<^verbatim>\<open>Permset_getsets\<close>.
\<close>

definition Permset_get_right :: "nat \<Rightarrow> c_int \<Rightarrow> world \<Rightarrow> pyval option \<times> world" where
  "Permset_get_right obj arg w =
     (if get_perm (lib w) (permset (Permsets w obj)) arg \<noteq> 0 then (Some (PyBool True), w)
      else (Some (PyBool False), w))"

definition Permset_set_right :: "nat \<Rightarrow> pyval \<Rightarrow> c_int \<Rightarrow> world \<Rightarrow> int \<times> world" where
  "Permset_set_right obj v arg w =
     (if \<not> PyInt_Check v then (-1, PyErr_SetString PyExc_ValueError w)
      else
        (let on = (ucast (PyInt_AsLong v) :: c_int);
             r = (if on \<noteq> 0 then acl_add_perm (permset (Permsets w obj)) arg (lib w)
                  else acl_delete_perm (permset (Permsets w obj)) arg (lib w))
         in if fst r = -1 then (-1, PyErr_SetFromErrno PyExc_IOError (w\<lparr>lib := snd r\<rparr>))
            else (0, w\<lparr>lib := snd r\<rparr>)))"

section \<open>Traversal\<close>

text \<open>
  A \<^verbatim>\<open>for\<close> loop over an ACL calls \<^verbatim>\<open>tp_iter\<close> once and then \<^verbatim>\<open>tp_iternext\<close> until it
  returns \<^verbatim>\<open>NULL\<close>. Whether the loop ends lies with the backend, so the loop runs on
  fuel: \<open>None\<close> says the fuel ran out before \<^verbatim>\<open>tp_iternext\<close> returned \<^verbatim>\<open>NULL\<close>.
\<close>

primrec drain :: "nat \<Rightarrow> nat \<Rightarrow> world \<Rightarrow> (pyval list \<times> world) option" where
  "drain 0 obj w = None"
| "drain (Suc fuel) obj w =
     (case ACL_iternext obj w of
        (None, w') \<Rightarrow> Some ([], w')
      | (Some v, w') \<Rightarrow>
          (case drain fuel obj w' of
             None \<Rightarrow> None
           | Some (vs, w'') \<Rightarrow> Some (v # vs, w'')))"

definition traverse :: "nat \<Rightarrow> nat \<Rightarrow> world \<Rightarrow> (pyval list \<times> world) option" where
  "traverse fuel obj w = drain fuel obj (snd (ACL_iter obj w))"

section \<open>The spec's notions\<close>

text \<open>
  The six structural rules of the spec's ValidationEngine, in the spec's words:
  exactly one entry of a tag, at most one entry of a tag, qualifiers unique among
  the entries of a tag. Entries are told apart by their position in the ACL.
\<close>

definition exactly_one :: "c_int \<Rightarrow> acl_entry_obj list \<Rightarrow> bool" where
  "exactly_one t es \<longleftrightarrow> (\<exists>!i. i < length es \<and> etag (es ! i) = t)"

definition at_most_one :: "c_int \<Rightarrow> acl_entry_obj list \<Rightarrow> bool" where
  "at_most_one t es \<longleftrightarrow>
     (\<forall>i j. i < length es \<and> j < length es \<and> etag (es ! i) = t \<and> etag (es ! j) = t \<longrightarrow> i = j)"

definition unique_qualifiers :: "c_int \<Rightarrow> acl_entry_obj list \<Rightarrow> bool" where
  "unique_qualifiers t es \<longleftrightarrow>
     (\<forall>i j. i < length es \<and> j < length es \<and> etag (es ! i) = t \<and> etag (es ! j) = t \<and>
            equalifier (es ! i) = equalifier (es ! j) \<longrightarrow> i = j)"

definition has_named_entry :: "acl_entry_obj list \<Rightarrow> bool" where
  "has_named_entry es \<longleftrightarrow> (\<exists>e \<in> set es. etag e = ACL_USER \<or> etag e = ACL_GROUP)"

definition validation_rules :: "acl_entry_obj list \<Rightarrow> bool" where
  "validation_rules es \<longleftrightarrow>
     exactly_one ACL_USER_OBJ es \<and>
     exactly_one ACL_GROUP_OBJ es \<and>
     exactly_one ACL_OTHER es \<and>
     unique_qualifiers ACL_USER es \<and>
     unique_qualifiers ACL_GROUP es \<and>
     (if has_named_entry es then exactly_one ACL_MASK es else at_most_one ACL_MASK es)"

text \<open>
  A supplied value is a recognized tag type when it is a Python integer equal to
  one of the seven tag constants the module exports.
\<close>

definition is_tag_type :: "pyval \<Rightarrow> bool" where
  "is_tag_type v \<longleftrightarrow>
     PyInt_Check v \<and>
     PyInt_AsLong v \<in> set (map ucast
       [ACL_UNDEFINED_TAG, ACL_USER_OBJ, ACL_USER, ACL_GROUP_OBJ, ACL_GROUP, ACL_MASK, ACL_OTHER])"

text \<open>An Entry belongs to the ACL object its back-reference names.\<close>

definition belongs_to :: "world \<Rightarrow> nat \<Rightarrow> nat \<Rightarrow> bool" where
  "belongs_to w e a \<longleftrightarrow> parent_acl (Entries w e) = Some a"

text \<open>The backend record an Entry view or a Permset view stands for.\<close>

definition view_of :: "world \<Rightarrow> pyval \<Rightarrow> acl_entry_t option" where
  "view_of w v = (case v of PyEntry e \<Rightarrow> entry (Entries w e) | _ \<Rightarrow> None)"

text \<open>
  The backend as \<^verbatim>\<open>ACL_set_state\<close> has it after its first step, the import of the
  buffer, and before it releases anything.
\<close>

definition imported :: "string \<Rightarrow> world \<Rightarrow> libacl" where
  "imported buf w = snd (acl_copy_int buf (lib w))"

text \<open>A handle an ACL object may hold: none, or one that is live in the backend.\<close>

definition holds_live :: "world \<Rightarrow> nat \<Rightarrow> bool" where
  "holds_live w obj \<longleftrightarrow>
     (case acl (ACLs w obj) of None \<Rightarrow> True | Some h \<Rightarrow> acls (lib w) h \<noteq> None)"

text \<open>The address the backend's allocator hands out next is not in use.\<close>

definition fresh_alloc :: "libacl \<Rightarrow> bool" where
  "fresh_alloc L \<longleftrightarrow> acls L (next_acl L) = None"

section \<open>An example platform and an example state\<close>

text \<open>A platform to run the model on: it renders an ACL one entry per line.\<close>

definition render_perms :: "c_int \<Rightarrow> string" where
  "render_perms p =
     [if p AND ACL_READ \<noteq> 0 then CHR ''r'' else CHR ''-'',
      if p AND ACL_WRITE \<noteq> 0 then CHR ''w'' else CHR ''-'',
      if p AND ACL_EXECUTE \<noteq> 0 then CHR ''x'' else CHR ''-'']"

definition render_entry :: "acl_entry_obj \<Rightarrow> string option" where
  "render_entry e =
     (if etag e = ACL_USER_OBJ then Some (''user::'' @ render_perms (eperms e))
      else if etag e = ACL_GROUP_OBJ then Some (''group::'' @ render_perms (eperms e))
      else if etag e = ACL_OTHER then Some (''other::'' @ render_perms (eperms e))
      else if etag e = ACL_MASK then Some (''mask::'' @ render_perms (eperms e))
      else if etag e = ACL_USER then
        (case equalifier e of
           None \<Rightarrow> None
         | Some q \<Rightarrow> Some (''user:'' @ digits (unat q) @ '':'' @ render_perms (eperms e)))
      else if etag e = ACL_GROUP then
        (case equalifier e of
           None \<Rightarrow> None
         | Some q \<Rightarrow> Some (''group:'' @ digits (unat q) @ '':'' @ render_perms (eperms e)))
      else None)"

fun render_acl :: "acl_entry_obj list \<Rightarrow> string option" where
  "render_acl [] = Some []"
| "render_acl (e # es) =
     (case render_entry e of
        None \<Rightarrow> None
      | Some l \<Rightarrow> (case render_acl es of None \<Rightarrow> None | Some ls \<Rightarrow> Some (l @ [CHR 0x0A] @ ls)))"

definition base_entries :: "acl_entry_obj list" where
  "base_entries =
     [\<lparr>etag = ACL_USER_OBJ, equalifier = None, eperms = 7\<rparr>,
      \<lparr>etag = ACL_GROUP_OBJ, equalifier = None, eperms = 5\<rparr>,
      \<lparr>etag = ACL_OTHER, equalifier = None, eperms = 4\<rparr>]"

definition named_entries :: "acl_entry_obj list" where
  "named_entries =
     [\<lparr>etag = ACL_USER_OBJ, equalifier = None, eperms = 7\<rparr>,
      \<lparr>etag = ACL_USER, equalifier = Some 1000, eperms = 4\<rparr>,
      \<lparr>etag = ACL_GROUP_OBJ, equalifier = None, eperms = 5\<rparr>,
      \<lparr>etag = ACL_MASK, equalifier = None, eperms = 7\<rparr>,
      \<lparr>etag = ACL_OTHER, equalifier = None, eperms = 4\<rparr>]"

definition ex_platform :: platform where
  "ex_platform =
     \<lparr>p_get_file = (\<lambda>path ty. if path = ''/srv/data'' \<and> ty = ACL_TYPE_ACCESS
                                then Some base_entries else None),
      p_get_fd = (\<lambda>fd. None),
      p_from_text = (\<lambda>text. if text = ''u::rwx,g::r-x,o::r--'' then Some base_entries else None),
      p_to_text = render_acl\<rparr>"

text \<open>
  The example state: object 1 is an ACL on the three base entries, object 2 an ACL
  with a named user and a mask, object 3 an Entry view of the named user of
  object 2, object 4 an Entry that \<^verbatim>\<open>Entry_new\<close> made and nothing initialised.
\<close>

definition ex_lib :: libacl where
  "ex_lib =
     \<lparr>acls = [10 \<mapsto> \<lparr>aentries = enumerate 0 base_entries, acurr = 0, anext_id = 3\<rparr>,
              11 \<mapsto> \<lparr>aentries = enumerate 0 named_entries, acurr = 0, anext_id = 5\<rparr>],
      next_acl = 12\<rparr>"

definition ex_world :: world where
  "ex_world =
     \<lparr>ACLs = (\<lambda>_. \<lparr>ob_refcnt = 0, acl = None, entry_id = 0\<rparr>)
         (1 := \<lparr>ob_refcnt = 1, acl = Some 10, entry_id = ACL_FIRST_ENTRY\<rparr>,
          2 := \<lparr>ob_refcnt = 2, acl = Some 11, entry_id = ACL_FIRST_ENTRY\<rparr>),
      Entries = (\<lambda>_. \<lparr>ob_refcnt = 0, parent_acl = None, entry = None\<rparr>)
         (3 := \<lparr>ob_refcnt = 1, parent_acl = Some 2, entry = Some (11, 1)\<rparr>,
          4 := \<lparr>ob_refcnt = 1, parent_acl = None, entry = None\<rparr>),
      Permsets = (\<lambda>_. \<lparr>ob_refcnt = 0, parent_entry = None, permset = None\<rparr>),
      allocated = {1, 2, 3, 4},
      next_ob = 5,
      curexc = None,
      unraisable = [],
      lib = ex_lib\<rparr>"

text \<open>
  The example state with an error in flight and with the backend handle of
  object 2 already released behind the object's back.
\<close>

definition stale_world :: world where
  "stale_world = ex_world\<lparr>curexc := Some PyExc_TypeError, lib := snd (acl_free 11 ex_lib)\<rparr>"

text \<open>The example state after the permset of Entry 3 was asked for twice.\<close>

definition two_views :: world where
  "two_views = snd (Entry_get_permset 3 (snd (Entry_get_permset 3 ex_world)))"

text \<open>The entries of object 2 in the backend's bytes and in the example platform's text.\<close>

definition named_bytes :: string where
  "named_bytes = ext_form named_entries"

definition named_text :: string where
  "named_text =
     ''user::rwx'' @ [CHR 0x0A] @ ''user:1000:r--'' @ [CHR 0x0A] @ ''group::r-x'' @ [CHR 0x0A] @
     ''mask::rwx'' @ [CHR 0x0A] @ ''other::r--'' @ [CHR 0x0A]"

text \<open>
  Where a traversal stands: the ACL object holds the live handle \<open>h\<close> with the
  records \<open>xs\<close>, and its next \<^verbatim>\<open>ACL_iternext\<close> asks the backend for the record at
  position \<open>k\<close>.
\<close>

definition iter_pos :: "world \<Rightarrow> nat \<Rightarrow> acl_t \<Rightarrow> (nat \<times> acl_entry_obj) list \<Rightarrow> nat \<Rightarrow> bool" where
  "iter_pos w obj h xs k \<longleftrightarrow>
     acl (ACLs w obj) = Some h \<and>
     (case acls (lib w) h of
        None \<Rightarrow> False
      | Some a \<Rightarrow>
          aentries a = xs \<and>
          (entry_id (ACLs w obj) = ACL_FIRST_ENTRY \<and> k = 0 \<or>
           entry_id (ACLs w obj) = ACL_NEXT_ENTRY \<and> k = acurr a))"

text \<open>The example state in the middle of a traversal of object 2, one entry in.\<close>

definition mid_world :: world where
  "mid_world = snd (ACL_iternext 2 (snd (ACL_iter 2 ex_world)))"

section \<open>Facts about the model\<close>

lemmas acl_consts =
  ACL_UNDEFINED_TAG_def ACL_USER_OBJ_def ACL_USER_def ACL_GROUP_OBJ_def ACL_GROUP_def
  ACL_MASK_def ACL_OTHER_def ACL_READ_def ACL_WRITE_def ACL_EXECUTE_def
  ACL_FIRST_ENTRY_def ACL_NEXT_ENTRY_def ACL_TYPE_ACCESS_def ACL_TYPE_DEFAULT_def

lemmas ex_defs = ex_world_def ex_lib_def base_entries_def named_entries_def

subsection \<open>Teardown\<close>

lemma ACL_dealloc_curexc: "curexc (ACL_dealloc obj w) = curexc w"
  by (auto simp: ACL_dealloc_def Let_def PyObject_DEL_def PyErr_WriteUnraisable_def
      split: option.splits)

lemma ACL_dealloc_unraisable:
  "unraisable (ACL_dealloc obj w) =
     (case acl (ACLs w obj) of
        None \<Rightarrow> unraisable w
      | Some h \<Rightarrow> if fst (acl_free h (lib w)) \<noteq> 0 then unraisable w @ [obj] else unraisable w)"
  by (auto simp: ACL_dealloc_def Let_def PyObject_DEL_def PyErr_WriteUnraisable_def
      split: option.splits)

lemma Py_DECREF_ACL_curexc: "curexc (Py_DECREF_ACL p w) = curexc w"
  by (simp add: Py_DECREF_ACL_def Let_def ACL_dealloc_curexc)

lemma Entry_dealloc_curexc: "curexc (Entry_dealloc obj w) = curexc w"
  by (auto simp: Entry_dealloc_def Let_def PyObject_DEL_def Py_DECREF_ACL_curexc
      split: option.splits)

text \<open>
  C8. An ACL is destroyed while an error of an earlier operation is in flight:
  after \<^verbatim>\<open>ACL_dealloc\<close> the error indicator still holds that error. When the release
  of the backend handle fails, the failure is reported through
  \<^verbatim>\<open>PyErr_WriteUnraisable\<close> (one more report, for this object) and is not raised;
  when the release succeeds or there is no handle, nothing is reported. The
  destruction of an Entry, which may take its parent ACL down with it, keeps the
  error in flight too.
\<close>

theorem dealloc_keeps_error_in_flight:
  assumes "curexc w = Some err"
  shows "curexc (ACL_dealloc obj w) = Some err \<and>
         unraisable (ACL_dealloc obj w) =
           (case acl (ACLs w obj) of
              None \<Rightarrow> unraisable w
            | Some h \<Rightarrow> if fst (acl_free h (lib w)) \<noteq> 0 then unraisable w @ [obj] else unraisable w) \<and>
         curexc (Entry_dealloc e w) = Some err"
  using assms by (simp add: ACL_dealloc_curexc ACL_dealloc_unraisable Entry_dealloc_curexc)

theorem dealloc_keeps_error_in_flight_witness:
  "curexc stale_world = Some PyExc_TypeError \<and>
   curexc (ACL_dealloc 2 stale_world) = Some PyExc_TypeError \<and>
   unraisable (ACL_dealloc 2 stale_world) = [2] \<and>
   curexc (Entry_dealloc 3 stale_world) = Some PyExc_TypeError"
proof -
  have h: "curexc stale_world = Some PyExc_TypeError"
    by (simp add: stale_world_def)
  have a: "acl (ACLs stale_world 2) = Some 11"
    by (simp add: stale_world_def ex_world_def)
  have f: "fst (acl_free 11 (lib stale_world)) = -1"
    by (simp add: stale_world_def ex_defs acl_free_def)
  show ?thesis
    using dealloc_keeps_error_in_flight [OF h, of 2 3] a f h
    by (simp add: stale_world_def ex_world_def)
qed

subsection \<open>Construction\<close>










subsection \<open>Entries without a record\<close>

lemma record_lookup_None [simp]: "record_lookup L None = None"
  by (simp add: record_lookup_def)

lemma record_modify_None [simp]: "record_modify None f L = (-1, L)"
  by (simp add: record_modify_def)

lemma acl_set_tag_type_None: "acl_set_tag_type None t L = (-1, L)"
  by (simp add: acl_set_tag_type_def)

lemma acl_copy_entry_None: "acl_copy_entry None src L = (-1, L)"
  by (simp add: acl_copy_entry_def split: option.splits)

lemma acl_set_permset_None: "acl_set_permset None ps L = (-1, L)"
  by (simp add: acl_set_permset_def split: option.splits)

lemma Permset_new_Entries: "Entries (snd (Permset_new w)) = Entries w"
  by (simp add: Permset_new_def PyType_GenericNew_Permset_def Let_def)

lemma Permset_new_lib: "lib (snd (Permset_new w)) = lib w"
  by (simp add: Permset_new_def PyType_GenericNew_Permset_def Let_def)

text \<open>
  C10. An Entry whose backend record is absent (\<^verbatim>\<open>entry\<close> is \<^verbatim>\<open>NULL\<close>, as \<^verbatim>\<open>Entry_new\<close>
  leaves it). The getters of the tag type and of the qualifier test for it and
  raise \<^verbatim>\<open>AttributeError\<close>, the spec's UninitializedState. The setter of the tag
  type, \<^verbatim>\<open>Entry_str\<close>, the permset accessor and \<^verbatim>\<open>Entry_copy\<close> do not test: each hands
  \<^verbatim>\<open>NULL\<close> to its backend primitive, the primitive answers \<open>-1\<close>, and the call fails
  with the \<^verbatim>\<open>IOError\<close> of a BackendError. The setters of the qualifier and of the
  permset behave like the latter group.
\<close>

theorem absent_record_checks:
  assumes "entry (Entries w obj) = None" and "PyInt_Check v"
  shows "Entry_get_tag_type obj w = (None, PyErr_SetString PyExc_AttributeError w) \<and>
         Entry_get_qualifier obj w = (None, PyErr_SetString PyExc_AttributeError w) \<and>
         fails_with (PyErr_SetString PyExc_AttributeError w) UninitializedState \<and>
         fst (acl_set_tag_type None (ucast (PyInt_AsLong v)) (lib w)) = -1 \<and>
         Entry_set_tag_type obj (Some v) w = (-1, PyErr_SetFromErrno PyExc_IOError w) \<and>
         fst (acl_get_tag_type (lib w) None) = -1 \<and>
         Entry_str obj w = (None, PyErr_SetFromErrno PyExc_IOError w) \<and>
         fst (acl_get_permset (lib w) None) = -1 \<and>
         Entry_get_permset obj w = (None, PyErr_SetFromErrno PyExc_IOError (snd (Permset_new w))) \<and>
         fst (acl_copy_entry None (entry (Entries w other)) (lib w)) = -1 \<and>
         Entry_copy obj [PyEntry other] w = (None, PyErr_SetFromErrno PyExc_IOError w) \<and>
         Entry_set_qualifier obj (Some v) w = (-1, PyErr_SetFromErrno PyExc_IOError w) \<and>
         Entry_set_permset obj (PyPermset p) w = (-1, PyErr_SetFromErrno PyExc_IOError w) \<and>
         fails_with (PyErr_SetFromErrno PyExc_IOError w) BackendError \<and>
         fails_with (PyErr_SetFromErrno PyExc_IOError (snd (Permset_new w))) BackendError"
  using assms
  by (simp add: Entry_get_tag_type_def Entry_get_qualifier_def Entry_set_tag_type_def Entry_str_def
      Entry_get_permset_def Entry_copy_def Entry_set_qualifier_def Entry_set_permset_def
      acl_set_tag_type_None acl_copy_entry_None acl_set_permset_None acl_get_tag_type_def
      acl_get_permset_def acl_set_qualifier_def Permset_new_Entries Permset_new_lib Let_def
      fails_with_def failure_of_def PyErr_SetString_def PyErr_SetFromErrno_def)

theorem absent_record_checks_witness:
  "entry (Entries ex_world 4) = None \<and> PyInt_Check (PyInt 2) \<and>
   Entry_get_tag_type 4 ex_world = (None, ex_world\<lparr>curexc := Some PyExc_AttributeError\<rparr>) \<and>
   Entry_get_qualifier 4 ex_world = (None, ex_world\<lparr>curexc := Some PyExc_AttributeError\<rparr>) \<and>
   Entry_set_tag_type 4 (Some (PyInt 2)) ex_world = (-1, ex_world\<lparr>curexc := Some PyExc_IOError\<rparr>) \<and>
   Entry_str 4 ex_world = (None, ex_world\<lparr>curexc := Some PyExc_IOError\<rparr>) \<and>
   fst (Entry_get_permset 4 ex_world) = None \<and>
   curexc (snd (Entry_get_permset 4 ex_world)) = Some PyExc_IOError \<and>
   Entry_copy 4 [PyEntry 3] ex_world = (None, ex_world\<lparr>curexc := Some PyExc_IOError\<rparr>)"
proof -
  have e: "entry (Entries ex_world 4) = None"
    by (simp add: ex_world_def)
  have i: "PyInt_Check (PyInt 2)"
    by (simp add: PyInt_Check_def)
  show ?thesis
    using absent_record_checks [OF e i, of 3 0] e i
    by (simp add: PyErr_SetString_def PyErr_SetFromErrno_def)
qed

subsection \<open>Setting the tag type\<close>

lemma record_modify_fst: "fst (record_modify d f L) = -1 \<or> fst (record_modify d f L) = 0"
  by (simp add: record_modify_def split: option.splits)

lemma record_modify_fail: "fst (record_modify d f L) = -1 \<Longrightarrow> snd (record_modify d f L) = L"
  by (auto simp add: record_modify_def split: option.splits)

lemma acl_set_tag_type_fail:
  "fst (acl_set_tag_type d t L) = -1 \<Longrightarrow> snd (acl_set_tag_type d t L) = L"
  by (simp add: acl_set_tag_type_def record_modify_fail split: if_splits)

text \<open>
  C6, as stated, fails: the integer 99 is none of the seven tag types, and setting
  it on the Entry of the example state fails with the \<^verbatim>\<open>IOError\<close> of the backend's
  refusal, a BackendError and not an InvalidArgument. \<^verbatim>\<open>Entry_set_tag_type\<close> tests
  the type of the value, not its range.
\<close>

theorem Entry_set_tag_type_counterexample:
  "\<not> is_tag_type (PyInt 99) \<and>
   Entry_set_tag_type 3 (Some (PyInt 99)) ex_world = (-1, ex_world\<lparr>curexc := Some PyExc_IOError\<rparr>) \<and>
   fails_with (snd (Entry_set_tag_type 3 (Some (PyInt 99)) ex_world)) BackendError \<and>
   \<not> fails_with (snd (Entry_set_tag_type 3 (Some (PyInt 99)) ex_world)) InvalidArgument"
  by (simp add: Entry_set_tag_type_def acl_set_tag_type_def recognized_tag_def is_tag_type_def
      acl_consts PyInt_Check_def PyInt_AsLong_def PyErr_SetFromErrno_def fails_with_def
      failure_of_def Let_def)

text \<open>
  C6, amended. Deleting the attribute or setting a value that is not an integer
  fails with InvalidArgument and leaves the backend alone. An integer, a tag type
  or not, is cut to a C \<^verbatim>\<open>int\<close> and handed to \<^verbatim>\<open>acl_set_tag_type\<close>: the set fails with
  BackendError exactly when the backend rejects what it was handed, leaving the
  backend as it was, and succeeds with the backend's new state otherwise.
\<close>

theorem Entry_set_tag_type_failures:
  "(val = None \<or> (\<exists>v. val = Some v \<and> \<not> PyInt_Check v) \<longrightarrow>
      fst (Entry_set_tag_type obj val w) = -1 \<and>
      fails_with (snd (Entry_set_tag_type obj val w)) InvalidArgument \<and>
      lib (snd (Entry_set_tag_type obj val w)) = lib w) \<and>
   (\<forall>v. val = Some v \<and> PyInt_Check v \<longrightarrow>
      (if fst (acl_set_tag_type (entry (Entries w obj)) (ucast (PyInt_AsLong v)) (lib w)) = -1
       then fst (Entry_set_tag_type obj val w) = -1 \<and>
            fails_with (snd (Entry_set_tag_type obj val w)) BackendError \<and>
            lib (snd (Entry_set_tag_type obj val w)) = lib w
       else fst (Entry_set_tag_type obj val w) = 0 \<and>
            curexc (snd (Entry_set_tag_type obj val w)) = curexc w \<and>
            lib (snd (Entry_set_tag_type obj val w)) =
              snd (acl_set_tag_type (entry (Entries w obj)) (ucast (PyInt_AsLong v)) (lib w))))"
  by (auto simp: Entry_set_tag_type_def Let_def PyErr_SetString_def PyErr_SetFromErrno_def
      fails_with_def failure_of_def acl_set_tag_type_fail)

theorem Entry_set_tag_type_failures_witness:
  "fst (Entry_set_tag_type 3 (Some (PyString ''user'')) ex_world) = -1 \<and>
   fails_with (snd (Entry_set_tag_type 3 (Some (PyString ''user'')) ex_world)) InvalidArgument \<and>
   fst (Entry_set_tag_type 3 None ex_world) = -1 \<and>
   fails_with (snd (Entry_set_tag_type 3 None ex_world)) InvalidArgument \<and>
   fst (acl_set_tag_type (Some (11, 1)) 99 ex_lib) = -1 \<and>
   fst (Entry_set_tag_type 3 (Some (PyInt 99)) ex_world) = -1 \<and>
   fails_with (snd (Entry_set_tag_type 3 (Some (PyInt 99)) ex_world)) BackendError \<and>
   fst (Entry_set_tag_type 3 (Some (PyInt 8)) ex_world) = 0 \<and>
   curexc (snd (Entry_set_tag_type 3 (Some (PyInt 8)) ex_world)) = None \<and>
   \<not> is_tag_type (PyInt 4294967304) \<and>
   fst (Entry_set_tag_type 3 (Some (PyInt 4294967304)) ex_world) = 0 \<and>
   acl_get_tag_type (lib (snd (Entry_set_tag_type 3 (Some (PyInt 4294967304)) ex_world))) (Some (11, 1)) =
     (0, ACL_GROUP)"
proof -
  have s: "\<not> PyInt_Check (PyString ''user'')"
    and i: "PyInt_Check (PyInt 99)" "PyInt_Check (PyInt 8)" "PyInt_Check (PyInt 4294967304)"
    by (simp_all add: PyInt_Check_def)
  have e: "entry (Entries ex_world 3) = Some (11, 1)" "lib ex_world = ex_lib" "curexc ex_world = None"
    by (simp_all add: ex_world_def)
  have c: "(ucast (PyInt_AsLong (PyInt 99)) :: c_int) = 99" "(ucast (PyInt_AsLong (PyInt 8)) :: c_int) = 8"
    "(ucast (PyInt_AsLong (PyInt 4294967304)) :: c_int) = 8"
    by (simp_all add: PyInt_AsLong_def)
  have b: "fst (acl_set_tag_type (Some (11, 1)) 99 ex_lib) = -1"
    "fst (acl_set_tag_type (Some (11, 1)) 8 ex_lib) = 0"
    "acl_get_tag_type (snd (acl_set_tag_type (Some (11, 1)) 8 ex_lib)) (Some (11, 1)) = (0, ACL_GROUP)"
    by (simp_all add: acl_set_tag_type_def recognized_tag_def acl_consts acl_get_tag_type_def
        record_modify_def record_lookup_def record_store_def ex_lib_def named_entries_def)
  have u: "\<not> is_tag_type (PyInt 4294967304)"
    by (simp add: is_tag_type_def PyInt_AsLong_def acl_consts)
  show ?thesis
    using Entry_set_tag_type_failures [of "Some (PyString ''user'')" 3 ex_world]
      Entry_set_tag_type_failures [of None 3 ex_world]
      Entry_set_tag_type_failures [of "Some (PyInt 99)" 3 ex_world]
      Entry_set_tag_type_failures [of "Some (PyInt 8)" 3 ex_world]
      Entry_set_tag_type_failures [of "Some (PyInt 4294967304)" 3 ex_world]
      s i e c b u
    by simp
qed

subsection \<open>Deleting an entry\<close>

lemma acl_delete_entry_fail: "fst (acl_delete_entry a d L) = -1 \<Longrightarrow> snd (acl_delete_entry a d L) = L"
  by (auto simp: acl_delete_entry_def split: option.splits prod.splits if_splits)

lemma acl_delete_entry_own:
  "acls L h = Some ob \<Longrightarrow> i \<in> fst ` set (aentries ob) \<Longrightarrow>
   acl_delete_entry (Some h) (Some (h, i)) L =
     (0, L\<lparr>acls := (acls L)(h \<mapsto> ob\<lparr>aentries := filter (\<lambda>(j, r). j \<noteq> i) (aentries ob)\<rparr>)\<rparr>)"
  by (simp add: acl_delete_entry_def)

lemma map_of_filter_out: "map_of (filter (\<lambda>(j, r). j \<noteq> i) xs) i = None"
  by (induction xs) auto

text \<open>Arguments other than one Entry are a \<^verbatim>\<open>TypeError\<close> of the argument parser.\<close>

lemma ACL_delentry_not_an_entry:
  assumes "\<forall>x. args \<noteq> [PyEntry x]"
  shows "ACL_delentry a args w = (None, PyErr_SetString PyExc_TypeError w)"
  using assms by (auto simp: ACL_delentry_def split: list.splits pyval.splits)

text \<open>
  C4, as stated, fails: Entry 3 of the example state belongs to ACL 2, and
  \<^verbatim>\<open>ACL_delentry\<close> on ACL 1 succeeds for it, with no error set. The record of Entry 3
  is gone from the backend afterwards.
\<close>

theorem ACL_delentry_counterexample:
  "\<not> belongs_to ex_world 3 1 \<and>
   fst (ACL_delentry 1 [PyEntry 3] ex_world) = Some PyNone \<and>
   curexc (snd (ACL_delentry 1 [PyEntry 3] ex_world)) = None \<and>
   \<not> fails_with (snd (ACL_delentry 1 [PyEntry 3] ex_world)) InvalidArgument \<and>
   record_lookup (lib ex_world) (Some (11, 1)) =
     Some \<lparr>etag = ACL_USER, equalifier = Some 1000, eperms = 4\<rparr> \<and>
   record_lookup (lib (snd (ACL_delentry 1 [PyEntry 3] ex_world))) (Some (11, 1)) = None"
  by (simp add: belongs_to_def ACL_delentry_def acl_delete_entry_def ex_world_def ex_lib_def
      named_entries_def Let_def fails_with_def record_lookup_def)

text \<open>
  C4, amended. \<^verbatim>\<open>ACL_delentry\<close> does not compare the Entry's parent with the ACL. For
  an Entry argument it hands the Entry's record to \<^verbatim>\<open>acl_delete_entry\<close> on the ACL's
  handle: it fails with BackendError, never with InvalidArgument, exactly when the
  backend refuses, leaving the backend as it was, and succeeds with the backend's
  new state otherwise. When the record is a record of the ACL's live handle, the
  call succeeds and the record is gone from that handle.
\<close>

theorem ACL_delentry_outcomes:
  "(if fst (acl_delete_entry (acl (ACLs w a)) (entry (Entries w e)) (lib w)) = -1
    then fst (ACL_delentry a [PyEntry e] w) = None \<and>
         fails_with (snd (ACL_delentry a [PyEntry e] w)) BackendError \<and>
         \<not> fails_with (snd (ACL_delentry a [PyEntry e] w)) InvalidArgument \<and>
         lib (snd (ACL_delentry a [PyEntry e] w)) = lib w
    else fst (ACL_delentry a [PyEntry e] w) = Some PyNone \<and>
         curexc (snd (ACL_delentry a [PyEntry e] w)) = curexc w \<and>
         lib (snd (ACL_delentry a [PyEntry e] w)) =
           snd (acl_delete_entry (acl (ACLs w a)) (entry (Entries w e)) (lib w))) \<and>
   (\<forall>h ob i. acl (ACLs w a) = Some h \<and> acls (lib w) h = Some ob \<and>
        entry (Entries w e) = Some (h, i) \<and> i \<in> fst ` set (aentries ob) \<longrightarrow>
      fst (ACL_delentry a [PyEntry e] w) = Some PyNone \<and>
      acls (lib (snd (ACL_delentry a [PyEntry e] w))) h =
        Some (ob\<lparr>aentries := filter (\<lambda>(j, r). j \<noteq> i) (aentries ob)\<rparr>) \<and>
      record_lookup (lib (snd (ACL_delentry a [PyEntry e] w))) (Some (h, i)) = None)"
proof (intro conjI allI impI)
  show "if fst (acl_delete_entry (acl (ACLs w a)) (entry (Entries w e)) (lib w)) = -1
    then fst (ACL_delentry a [PyEntry e] w) = None \<and>
         fails_with (snd (ACL_delentry a [PyEntry e] w)) BackendError \<and>
         \<not> fails_with (snd (ACL_delentry a [PyEntry e] w)) InvalidArgument \<and>
         lib (snd (ACL_delentry a [PyEntry e] w)) = lib w
    else fst (ACL_delentry a [PyEntry e] w) = Some PyNone \<and>
         curexc (snd (ACL_delentry a [PyEntry e] w)) = curexc w \<and>
         lib (snd (ACL_delentry a [PyEntry e] w)) =
           snd (acl_delete_entry (acl (ACLs w a)) (entry (Entries w e)) (lib w))"
    by (simp add: ACL_delentry_def Let_def PyErr_SetFromErrno_def fails_with_def failure_of_def
        acl_delete_entry_fail)
next
  fix h ob i
  assume "acl (ACLs w a) = Some h \<and> acls (lib w) h = Some ob \<and>
        entry (Entries w e) = Some (h, i) \<and> i \<in> fst ` set (aentries ob)"
  then have d: "ACL_delentry a [PyEntry e] w =
      (Some PyNone, w\<lparr>lib := (lib w)\<lparr>acls := (acls (lib w))(h \<mapsto>
          ob\<lparr>aentries := filter (\<lambda>(j, r). j \<noteq> i) (aentries ob)\<rparr>)\<rparr>\<rparr>)"
    by (simp add: ACL_delentry_def Let_def acl_delete_entry_own)
  show "fst (ACL_delentry a [PyEntry e] w) = Some PyNone"
    and "acls (lib (snd (ACL_delentry a [PyEntry e] w))) h =
        Some (ob\<lparr>aentries := filter (\<lambda>(j, r). j \<noteq> i) (aentries ob)\<rparr>)"
    and "record_lookup (lib (snd (ACL_delentry a [PyEntry e] w))) (Some (h, i)) = None"
    by (simp_all add: d record_lookup_def map_of_filter_out)
qed

theorem ACL_delentry_outcomes_witness:
  "fst (acl_delete_entry (acl (ACLs ex_world 1)) (entry (Entries ex_world 4)) (lib ex_world)) = -1 \<and>
   fst (ACL_delentry 1 [PyEntry 4] ex_world) = None \<and>
   fails_with (snd (ACL_delentry 1 [PyEntry 4] ex_world)) BackendError \<and>
   \<not> fails_with (snd (ACL_delentry 1 [PyEntry 4] ex_world)) InvalidArgument \<and>
   belongs_to ex_world 3 2 \<and>
   fst (ACL_delentry 2 [PyEntry 3] ex_world) = Some PyNone \<and>
   record_lookup (lib (snd (ACL_delentry 2 [PyEntry 3] ex_world))) (Some (11, 1)) = None"
proof -
  have a: "acl (ACLs ex_world 2) = Some 11"
    and e: "entry (Entries ex_world 3) = Some (11, 1)"
    and l: "acls (lib ex_world) 11 = Some \<lparr>aentries = enumerate 0 named_entries, acurr = 0, anext_id = 5\<rparr>"
    and i: "(1::nat) \<in> fst ` set (aentries \<lparr>aentries = enumerate 0 named_entries, acurr = 0, anext_id = 5\<rparr>)"
    and b: "belongs_to ex_world 3 2"
    by (simp_all add: ex_defs belongs_to_def)
  have n: "fst (acl_delete_entry (acl (ACLs ex_world 1)) (entry (Entries ex_world 4)) (lib ex_world)) = -1"
    by (simp add: acl_delete_entry_def ex_world_def ex_lib_def)
  show ?thesis
    using ACL_delentry_outcomes [of ex_world 1 4] ACL_delentry_outcomes [of ex_world 2 3] a e l i b n
    by simp
qed

subsection \<open>Validity\<close>

lemma count_tag_card: "count_tag t es = card {i. i < length es \<and> etag (es ! i) = t}"
  by (simp add: count_tag_def length_filter_conv_card)

lemma ex1_singleton: "(\<exists>!i. P i) \<longleftrightarrow> (\<exists>x. {i. P i} = {x})"
proof
  assume "\<exists>!i. P i"
  then obtain x where x: "P x" "\<And>y. P y \<Longrightarrow> y = x" by blast
  then have "{i. P i} = {x}" by blast
  then show "\<exists>x. {i. P i} = {x}" ..
next
  assume "\<exists>x. {i. P i} = {x}"
  then obtain x where "{i. P i} = {x}" ..
  then have "\<And>y. P y \<longleftrightarrow> y = x" by blast
  then show "\<exists>!i. P i" by (intro ex1I [of _ x]) simp_all
qed

lemma exactly_one_count: "exactly_one t es \<longleftrightarrow> count_tag t es = 1"
  unfolding exactly_one_def count_tag_card ex1_singleton
  by (simp add: card_1_singleton_iff)

lemma at_most_one_count: "at_most_one t es \<longleftrightarrow> count_tag t es \<le> 1"
proof -
  let ?S = "{i. i < length es \<and> etag (es ! i) = t}"
  have f: "finite ?S" by simp
  have "at_most_one t es \<longleftrightarrow> (\<forall>a\<in>?S. \<forall>b\<in>?S. a = b)"
    unfolding at_most_one_def by blast
  also have "\<dots> \<longleftrightarrow> card ?S \<le> Suc 0"
    using card_le_Suc0_iff_eq [OF f] by simp
  finally show ?thesis
    by (simp add: count_tag_card)
qed

lemma has_named_entry_count:
  "has_named_entry es \<longleftrightarrow> 0 < count_tag ACL_USER es + count_tag ACL_GROUP es"
proof -
  have "0 < count_tag t es \<longleftrightarrow> (\<exists>e \<in> set es. etag e = t)" for t
    by (simp add: count_tag_def filter_empty_conv)
  then show ?thesis
    unfolding has_named_entry_def by auto
qed


lemma unique_qualifiers_Nil: "unique_qualifiers t []"
  by (simp add: unique_qualifiers_def)

lemma unique_qualifiers_Cons:
  "unique_qualifiers t (e # es) \<longleftrightarrow>
     unique_qualifiers t es \<and> (etag e = t \<longrightarrow> equalifier e \<notin> set (qualifiers_of t es))"
proof
  assume u: "unique_qualifiers t (e # es)"
  have "unique_qualifiers t es"
    unfolding unique_qualifiers_def
  proof (intro allI impI)
    fix i j
    assume "i < length es \<and> j < length es \<and> etag (es ! i) = t \<and> etag (es ! j) = t \<and>
            equalifier (es ! i) = equalifier (es ! j)"
    then have "Suc i = Suc j"
      using u [unfolded unique_qualifiers_def, rule_format, of "Suc i" "Suc j"] by simp
    then show "i = j" by simp
  qed
  moreover have "equalifier e \<notin> set (qualifiers_of t es)" if "etag e = t"
  proof
    assume "equalifier e \<in> set (qualifiers_of t es)"
    then obtain x where "x \<in> set es" "etag x = t" "equalifier x = equalifier e"
      by (auto simp: qualifiers_of_def)
    then obtain k where "k < length es" "es ! k = x"
      by (auto simp: in_set_conv_nth)
    with \<open>etag x = t\<close> \<open>equalifier x = equalifier e\<close> that
    have "0 = Suc k"
      using u [unfolded unique_qualifiers_def, rule_format, of 0 "Suc k"] by simp
    then show False by simp
  qed
  ultimately show "unique_qualifiers t es \<and> (etag e = t \<longrightarrow> equalifier e \<notin> set (qualifiers_of t es))"
    by simp
next
  assume a: "unique_qualifiers t es \<and> (etag e = t \<longrightarrow> equalifier e \<notin> set (qualifiers_of t es))"
  have n: "equalifier (es ! k) \<noteq> equalifier e" if "k < length es" "etag (es ! k) = t" "etag e = t" for k
  proof -
    have "equalifier (es ! k) \<in> set (qualifiers_of t es)"
      using that by (auto simp: qualifiers_of_def)
    with a that show ?thesis by auto
  qed
  show "unique_qualifiers t (e # es)"
    unfolding unique_qualifiers_def
  proof (intro allI impI)
    fix i j
    assume h: "i < length (e # es) \<and> j < length (e # es) \<and> etag ((e # es) ! i) = t \<and>
               etag ((e # es) ! j) = t \<and> equalifier ((e # es) ! i) = equalifier ((e # es) ! j)"
    show "i = j"
    proof (cases i)
      case 0
      then show ?thesis
        using h n [of "j - 1"] by (cases j) auto
    next
      case (Suc i')
      show ?thesis
      proof (cases j)
        case 0
        then show ?thesis
          using h Suc n [of i'] by auto
      next
        case (Suc j')
        then show ?thesis
          using h \<open>i = Suc i'\<close> a [THEN conjunct1, unfolded unique_qualifiers_def, rule_format, of i' j']
          by simp
      qed
    qed
  qed
qed

lemma unique_qualifiers_distinct: "unique_qualifiers t es \<longleftrightarrow> distinct (qualifiers_of t es)"
proof (induction es)
  case Nil
  show ?case by (simp add: unique_qualifiers_Nil qualifiers_of_def)
next
  case (Cons e es)
  have "qualifiers_of t (e # es) =
          (if etag e = t then equalifier e # qualifiers_of t es else qualifiers_of t es)"
    by (simp add: qualifiers_of_def)
  with Cons show ?case
    by (auto simp: unique_qualifiers_Cons)
qed

lemma acl_check_rules: "acl_check es \<longleftrightarrow> validation_rules es"
  by (simp add: acl_check_def validation_rules_def exactly_one_count at_most_one_count
      has_named_entry_count unique_qualifiers_distinct)

text \<open>
  C2. \<^verbatim>\<open>ACL_valid\<close> returns \<^verbatim>\<open>True\<close> exactly when the ACL holds a live handle whose
  entries satisfy the six rules of the ValidationEngine: exactly one
  \<^verbatim>\<open>USER_OBJ\<close>, one \<^verbatim>\<open>GROUP_OBJ\<close> and one \<^verbatim>\<open>OTHER\<close> entry, qualifiers unique among the
  \<^verbatim>\<open>USER\<close> entries and among the \<^verbatim>\<open>GROUP\<close> entries, exactly one \<^verbatim>\<open>MASK\<close> entry when a
  \<^verbatim>\<open>USER\<close> or \<^verbatim>\<open>GROUP\<close> entry exists and at most one otherwise. The result is one
  boolean: the call never fails and leaves the interpreter and the backend as
  they were, without saying which rule failed.
\<close>

theorem ACL_valid_iff_rules:
  "ACL_valid obj w =
     (Some (PyBool (\<exists>es. acl_entries (lib w) (acl (ACLs w obj)) = Some es \<and> validation_rules es)), w)"
  by (auto simp: ACL_valid_def acl_valid_def acl_check_rules split: option.splits)

theorem ACL_valid_iff_rules_witness:
  "ACL_valid 2 ex_world = (Some (PyBool True), ex_world) \<and> validation_rules named_entries \<and>
   ACL_valid 4 ex_world = (Some (PyBool False), ex_world)"
proof -
  have a: "acl_entries (lib ex_world) (acl (ACLs ex_world 2)) = Some named_entries"
    by (simp add: acl_entries_def ex_world_def ex_lib_def named_entries_def enumerate_eq_zip)
  have v: "ACL_valid 2 ex_world = (Some (PyBool True), ex_world)"
    by (simp add: ACL_valid_def acl_valid_def a acl_check_def count_tag_def qualifiers_of_def
        named_entries_def acl_consts)
  have n: "acl_entries (lib ex_world) (acl (ACLs ex_world 4)) = None"
    by (simp add: acl_entries_def ex_world_def)
  show ?thesis
    using ACL_valid_iff_rules [of 2 ex_world] ACL_valid_iff_rules [of 4 ex_world] a v n
    by simp
qed

subsection \<open>Permset views\<close>

lemma map_of_update_entry:
  "map_of (map (\<lambda>(j, r). if j = i then (j, f r) else (j, r)) xs) k =
     (if k = i then map_option f (map_of xs k) else map_of xs k)"
  by (induction xs) auto

lemma record_lookup_update:
  "record_lookup L (Some d) = Some r \<Longrightarrow> record_lookup (record_store d f L) (Some d) = Some (f r)"
  by (cases d) (auto simp: record_lookup_def record_store_def map_of_update_entry split: option.splits)

lemma record_modify_live:
  "record_lookup L d = Some r \<Longrightarrow>
   fst (record_modify d f L) = 0 \<and> record_lookup (snd (record_modify d f L)) d = Some (f r)"
  by (cases d) (simp_all add: record_modify_def record_lookup_update)

lemma valid_perm_rights: "p \<in> {ACL_READ, ACL_WRITE, ACL_EXECUTE} \<Longrightarrow> valid_perm p \<and> p \<noteq> 0"
  by (auto simp: valid_perm_def acl_consts)

lemma or_and_self: "(a OR p) AND p = (p :: c_int)"
  by (auto simp: bit_eq_iff bit_simps)

lemma and_not_and_self: "(a AND NOT p) AND p = (0 :: c_int)"
  by (simp add: bit_eq_iff bit_simps)

lemma set_then_get:
  assumes "record_lookup L ps = Some r" and "p \<in> {ACL_READ, ACL_WRITE, ACL_EXECUTE}"
  shows "fst (acl_add_perm ps p L) = 0" "get_perm (snd (acl_add_perm ps p L)) ps p = 1"
    "fst (acl_delete_perm ps p L) = 0" "get_perm (snd (acl_delete_perm ps p L)) ps p = 0"
  using valid_perm_rights [OF assms(2)]
    record_modify_live [OF assms(1), of "\<lambda>r. r\<lparr>eperms := eperms r OR p\<rparr>"]
    record_modify_live [OF assms(1), of "\<lambda>r. r\<lparr>eperms := eperms r AND NOT p\<rparr>"]
  by (simp_all add: acl_add_perm_def acl_delete_perm_def get_perm_def or_and_self and_not_and_self)


lemma acl_get_permset_live:
  "record_lookup L d = Some r \<Longrightarrow> acl_get_permset L d = (0, d)"
  by (simp add: acl_get_permset_def)

lemma Entry_get_permset_live:
  assumes "record_lookup (lib w) (entry (Entries w e)) = Some r"
  shows "Entry_get_permset e w =
    (Some (PyPermset (next_ob w)),
     Py_INCREF_Entry e
       (w\<lparr>Permsets := (Permsets w)(next_ob w :=
              \<lparr>ob_refcnt = 1, parent_entry = Some e, permset = entry (Entries w e)\<rparr>),
          allocated := insert (next_ob w) (allocated w),
          next_ob := Suc (next_ob w)\<rparr>))"
  using acl_get_permset_live [OF assms]
  by (simp add: Entry_get_permset_def Permset_new_def PyType_GenericNew_Permset_def Let_def
      Py_INCREF_Entry_def)

lemma Permset_set_then_get:
  assumes "record_lookup (lib w) (permset (Permsets w p)) = Some r"
    and "permset (Permsets w q) = permset (Permsets w p)"
    and "right \<in> {ACL_READ, ACL_WRITE, ACL_EXECUTE}"
  shows "fst (Permset_set_right p (PyBool b) right w) = 0 \<and>
         fst (Permset_get_right q right (snd (Permset_set_right p (PyBool b) right w))) =
           Some (PyBool b)"
  using set_then_get [OF assms(1) assms(3)] assms(2)
  by (cases b) (simp_all add: Permset_set_right_def Permset_get_right_def PyInt_Check_def
      PyInt_AsLong_def Let_def)

text \<open>
  C5. An Entry with a live record is asked for its permset twice. The two calls
  return two different Permset objects, both bound to the permission bits of the
  Entry's record. Setting a right (\<^verbatim>\<open>read\<close>, \<^verbatim>\<open>write\<close> or \<^verbatim>\<open>execute\<close>) to a boolean
  through either object succeeds, and reading the right through the other object,
  and through the same one, returns that boolean.
\<close>

theorem permset_views_share_bits:
  assumes live: "record_lookup (lib w) (entry (Entries w e)) = Some r"
    and g1: "Entry_get_permset e w = (v1, w1)"
    and g2: "Entry_get_permset e w1 = (v2, w2)"
    and right: "right \<in> {ACL_READ, ACL_WRITE, ACL_EXECUTE}"
  shows "\<exists>p1 p2. v1 = Some (PyPermset p1) \<and> v2 = Some (PyPermset p2) \<and> p1 \<noteq> p2 \<and>
           permset (Permsets w2 p1) = entry (Entries w e) \<and>
           permset (Permsets w2 p2) = entry (Entries w e) \<and>
           (\<forall>b. fst (Permset_set_right p1 (PyBool b) right w2) = 0 \<and>
                fst (Permset_get_right p2 right (snd (Permset_set_right p1 (PyBool b) right w2))) =
                  Some (PyBool b) \<and>
                fst (Permset_get_right p1 right (snd (Permset_set_right p1 (PyBool b) right w2))) =
                  Some (PyBool b)) \<and>
           (\<forall>b. fst (Permset_set_right p2 (PyBool b) right w2) = 0 \<and>
                fst (Permset_get_right p1 right (snd (Permset_set_right p2 (PyBool b) right w2))) =
                  Some (PyBool b) \<and>
                fst (Permset_get_right p2 right (snd (Permset_set_right p2 (PyBool b) right w2))) =
                  Some (PyBool b))"
proof -
  let ?p1 = "next_ob w" and ?p2 = "Suc (next_ob w)"
  from g1 Entry_get_permset_live [OF live]
  have v1: "v1 = Some (PyPermset ?p1)"
    and w1: "w1 = Py_INCREF_Entry e
       (w\<lparr>Permsets := (Permsets w)(next_ob w :=
              \<lparr>ob_refcnt = 1, parent_entry = Some e, permset = entry (Entries w e)\<rparr>),
          allocated := insert (next_ob w) (allocated w),
          next_ob := Suc (next_ob w)\<rparr>)"
    by simp_all
  have e1: "entry (Entries w1 e) = entry (Entries w e)" and l1: "lib w1 = lib w"
    and n1: "next_ob w1 = ?p2"
    and p1: "Permsets w1 ?p1 = \<lparr>ob_refcnt = 1, parent_entry = Some e, permset = entry (Entries w e)\<rparr>"
    by (simp_all add: w1 Py_INCREF_Entry_def)
  have live1: "record_lookup (lib w1) (entry (Entries w1 e)) = Some r"
    using live by (simp add: e1 l1)
  from g2 Entry_get_permset_live [OF live1]
  have v2: "v2 = Some (PyPermset ?p2)"
    and w2: "w2 = Py_INCREF_Entry e
       (w1\<lparr>Permsets := (Permsets w1)(next_ob w1 :=
              \<lparr>ob_refcnt = 1, parent_entry = Some e, permset = entry (Entries w1 e)\<rparr>),
          allocated := insert (next_ob w1) (allocated w1),
          next_ob := Suc (next_ob w1)\<rparr>)"
    by (simp_all add: n1)
  have s1: "permset (Permsets w2 ?p1) = entry (Entries w e)"
    and s2: "permset (Permsets w2 ?p2) = entry (Entries w e)"
    and l2: "lib w2 = lib w"
    by (simp_all add: w2 Py_INCREF_Entry_def n1 p1 e1 l1)
  have lp1: "record_lookup (lib w2) (permset (Permsets w2 ?p1)) = Some r"
    and lp2: "record_lookup (lib w2) (permset (Permsets w2 ?p2)) = Some r"
    using live by (simp_all add: s1 s2 l2)
  have a: "fst (Permset_set_right ?p1 (PyBool b) right w2) = 0 \<and>
           fst (Permset_get_right ?p2 right (snd (Permset_set_right ?p1 (PyBool b) right w2))) =
             Some (PyBool b) \<and>
           fst (Permset_get_right ?p1 right (snd (Permset_set_right ?p1 (PyBool b) right w2))) =
             Some (PyBool b)" for b
    using Permset_set_then_get [OF lp1 _ right, of ?p2 b] Permset_set_then_get [OF lp1 _ right, of ?p1 b]
    by (simp add: s1 s2)
  have b: "fst (Permset_set_right ?p2 (PyBool b) right w2) = 0 \<and>
           fst (Permset_get_right ?p1 right (snd (Permset_set_right ?p2 (PyBool b) right w2))) =
             Some (PyBool b) \<and>
           fst (Permset_get_right ?p2 right (snd (Permset_set_right ?p2 (PyBool b) right w2))) =
             Some (PyBool b)" for b
    using Permset_set_then_get [OF lp2 _ right, of ?p1 b] Permset_set_then_get [OF lp2 _ right, of ?p2 b]
    by (simp add: s1 s2)
  show ?thesis
    using v1 v2 s1 s2 a b by (intro exI [of _ ?p1] exI [of _ ?p2]) simp
qed


theorem permset_views_share_bits_witness:
  "record_lookup (lib ex_world) (entry (Entries ex_world 3)) =
     Some \<lparr>etag = ACL_USER, equalifier = Some 1000, eperms = 4\<rparr> \<and>
   fst (Entry_get_permset 3 ex_world) = Some (PyPermset 5) \<and>
   fst (Entry_get_permset 3 (snd (Entry_get_permset 3 ex_world))) = Some (PyPermset 6) \<and>
   fst (Permset_get_right 6 ACL_WRITE two_views) = Some (PyBool False) \<and>
   fst (Permset_set_right 5 (PyBool True) ACL_WRITE two_views) = 0 \<and>
   fst (Permset_get_right 6 ACL_WRITE (snd (Permset_set_right 5 (PyBool True) ACL_WRITE two_views))) =
     Some (PyBool True) \<and>
   fst (Permset_get_right 5 ACL_WRITE (snd (Permset_set_right 6 (PyBool True) ACL_WRITE two_views))) =
     Some (PyBool True)"
proof -
  let ?g1 = "Entry_get_permset 3 ex_world"
  let ?g2 = "Entry_get_permset 3 (snd ?g1)"
  have live: "record_lookup (lib ex_world) (entry (Entries ex_world 3)) =
     Some \<lparr>etag = ACL_USER, equalifier = Some 1000, eperms = 4\<rparr>"
    by (simp add: record_lookup_def ex_defs)
  have r: "ACL_WRITE \<in> {ACL_READ, ACL_WRITE, ACL_EXECUTE}"
    by simp
  have g1: "?g1 = (fst ?g1, snd ?g1)" and g2: "?g2 = (fst ?g2, snd ?g2)"
    by simp_all
  have n0: "next_ob ex_world = 5"
    by (simp add: ex_world_def)
  have v1: "fst ?g1 = Some (PyPermset 5)"
    by (simp add: Entry_get_permset_live [OF live] n0)
  have n: "next_ob (snd ?g1) = 6"
    and l1: "lib (snd ?g1) = lib ex_world"
    and e1: "entry (Entries (snd ?g1) 3) = entry (Entries ex_world 3)"
    by (simp_all add: Entry_get_permset_live [OF live] Py_INCREF_Entry_def n0)
  have l: "record_lookup (lib (snd ?g1)) (entry (Entries (snd ?g1) 3)) =
              Some \<lparr>etag = ACL_USER, equalifier = Some 1000, eperms = 4\<rparr>"
    using live by (simp add: l1 e1)
  have v2: "fst ?g2 = Some (PyPermset 6)"
    by (simp add: Entry_get_permset_live [OF l] n)
  have p: "permset (Permsets two_views 6) = entry (Entries ex_world 3)" "lib two_views = lib ex_world"
    unfolding two_views_def
    by (simp_all add: Entry_get_permset_live [OF l] n Py_INCREF_Entry_def l1 e1)
  have f: "fst (Permset_get_right 6 ACL_WRITE two_views) = Some (PyBool False)"
    by (simp add: Permset_get_right_def p get_perm_def live valid_perm_def acl_consts)
  from permset_views_share_bits [OF live g1 g2 r]
  obtain p1 p2 where
    "fst ?g1 = Some (PyPermset p1)" "fst ?g2 = Some (PyPermset p2)"
    "\<forall>b. fst (Permset_set_right p1 (PyBool b) ACL_WRITE (snd ?g2)) = 0 \<and>
         fst (Permset_get_right p2 ACL_WRITE (snd (Permset_set_right p1 (PyBool b) ACL_WRITE (snd ?g2)))) =
           Some (PyBool b) \<and>
         fst (Permset_get_right p1 ACL_WRITE (snd (Permset_set_right p1 (PyBool b) ACL_WRITE (snd ?g2)))) =
           Some (PyBool b)"
    "\<forall>b. fst (Permset_set_right p2 (PyBool b) ACL_WRITE (snd ?g2)) = 0 \<and>
         fst (Permset_get_right p1 ACL_WRITE (snd (Permset_set_right p2 (PyBool b) ACL_WRITE (snd ?g2)))) =
           Some (PyBool b) \<and>
         fst (Permset_get_right p2 ACL_WRITE (snd (Permset_set_right p2 (PyBool b) ACL_WRITE (snd ?g2)))) =
           Some (PyBool b)"
    by blast
  with v1 v2 live f show ?thesis
    by (simp add: two_views_def)
qed

subsection \<open>Export and import of the state\<close>

text \<open>The codec loses nothing: what is exported imports to the same records.\<close>

lemma and_255_take_bit: "v AND 0xFF = take_bit 8 (v :: c_int)"
proof -
  have "(0xFF :: c_int) = mask 8"
    by (simp add: mask_eq_exp_minus_1)
  then show ?thesis
    by (simp add: take_bit_eq_mask)
qed

lemma unbyte_byte: "unbyte (byte v) = take_bit 8 v"
proof -
  have "unat (v AND 0xFF) < 256"
    by (rule le_less_trans [OF word_and_le1 [THEN word_le_nat_alt [THEN iffD1]]]) simp
  then show ?thesis
    by (simp add: unbyte_def byte_def and_255_take_bit)
qed

lemma bytes_word_word_bytes:
  "bytes_word (byte v) (byte (drop_bit 8 v)) (byte (drop_bit 16 v)) (byte (drop_bit 24 v)) = v"
  unfolding bytes_word_def unbyte_byte
proof (rule bit_word_eqI)
  fix n
  assume "n < LENGTH(32)"
  then have "n < 8 \<or> (8 \<le> n \<and> n < 16) \<or> (16 \<le> n \<and> n < 24) \<or> (24 \<le> n \<and> n < 32)"
    by auto
  then show "bit (take_bit 8 v OR push_bit 8 (take_bit 8 (drop_bit 8 v)) OR
                  push_bit 16 (take_bit 8 (drop_bit 16 v)) OR
                  push_bit 24 (take_bit 8 (drop_bit 24 v))) n = bit v n"
    by (auto simp: bit_simps)
qed

lemma int_form_ext_entry: "int_form (ext_entry e @ bs) = map_option ((#) e) (int_form bs)"
  by (cases "equalifier e")
    (auto simp: ext_entry_def word_bytes_def bytes_word_word_bytes split: option.splits)

lemma int_form_ext_form: "int_form (ext_form es) = Some es"
  by (induction es) (simp_all add: ext_form_def int_form_ext_entry)

lemma length_ext_form: "length (ext_form es) = 13 * length es"
  by (induction es) (auto simp: ext_form_def ext_entry_def word_bytes_def split: option.splits)

lemma acl_alloc_result:
  "acl_alloc es L =
     (Some (next_acl L),
      L\<lparr>acls := (acls L)(next_acl L \<mapsto> \<lparr>aentries = enumerate 0 es, acurr = 0, anext_id = length es\<rparr>),
        next_acl := Suc (next_acl L)\<rparr>)"
  by (simp add: acl_alloc_def)

lemma acl_copy_int_None: "int_form b = None \<Longrightarrow> acl_copy_int b L = (None, L)"
  by (simp add: acl_copy_int_def acl_of_source_def)

lemma acl_copy_int_Some: "int_form b = Some es \<Longrightarrow> acl_copy_int b L = acl_alloc es L"
  by (simp add: acl_copy_int_def acl_of_source_def)

lemma imported_None: "int_form b = None \<Longrightarrow> imported b w = lib w"
  by (simp add: imported_def acl_copy_int_None)

lemma imported_Some:
  "int_form b = Some es \<Longrightarrow>
   imported b w =
     (lib w)\<lparr>acls := (acls (lib w))(next_acl (lib w) \<mapsto>
                \<lparr>aentries = enumerate 0 es, acurr = 0, anext_id = length es\<rparr>),
             next_acl := Suc (next_acl (lib w))\<rparr>"
  by (simp add: imported_def acl_copy_int_Some acl_alloc_result)

text \<open>
  \<^verbatim>\<open>ACL_set_state\<close> step by step: the import, then the release of the handle the
  object holds, then the store of the new handle.
\<close>

lemma ACL_set_state_invalid:
  "int_form b = None \<Longrightarrow>
   ACL_set_state obj [PyString b] w = (None, PyErr_SetFromErrno PyExc_IOError w)"
  by (simp add: ACL_set_state_def acl_copy_int_None Let_def)

lemma ACL_set_state_steps:
  assumes "int_form b = Some es"
  shows "ACL_set_state obj [PyString b] w =
    (case acl (ACLs w obj) of
       None \<Rightarrow>
         (Some PyNone,
          w\<lparr>ACLs := (ACLs w)(obj := (ACLs w obj)\<lparr>acl := Some (next_acl (lib w))\<rparr>),
            lib := imported b w\<rparr>)
     | Some old \<Rightarrow>
         if fst (acl_free old (imported b w)) = -1
         then (None, PyErr_SetFromErrno PyExc_IOError (w\<lparr>lib := imported b w\<rparr>))
         else (Some PyNone,
               w\<lparr>ACLs := (ACLs w)(obj := (ACLs w obj)\<lparr>acl := Some (next_acl (lib w))\<rparr>),
                 lib := snd (acl_free old (imported b w))\<rparr>))"
proof -
  have f: "fst (acl_free old L) = -1 \<Longrightarrow> snd (acl_free old L) = L" for old L
    by (auto simp: acl_free_def split: option.splits)
  show ?thesis
    using assms
    by (auto simp: ACL_set_state_def imported_def acl_copy_int_Some acl_alloc_result Let_def f
        split: option.splits)
qed

lemma ACL_set_state_valid:
  assumes "int_form b = Some es" and "holds_live w obj" and "fresh_alloc (lib w)"
  shows "ACL_set_state obj [PyString b] w =
    (Some PyNone,
     w\<lparr>ACLs := (ACLs w)(obj := (ACLs w obj)\<lparr>acl := Some (next_acl (lib w))\<rparr>),
       lib := \<lparr>acls = (case acl (ACLs w obj) of
                         None \<Rightarrow> (acls (lib w))
                       | Some old \<Rightarrow> (acls (lib w))(old := None))
                      (next_acl (lib w) \<mapsto>
                         \<lparr>aentries = enumerate 0 es, acurr = 0, anext_id = length es\<rparr>),
                next_acl = Suc (next_acl (lib w))\<rparr>\<rparr>)"
proof (cases "acl (ACLs w obj)")
  case None
  then show ?thesis
    using assms(1) by (simp add: ACL_set_state_def acl_copy_int_Some acl_alloc_result Let_def)
next
  case (Some old)
  with assms(2,3) have "acls (lib w) old \<noteq> None" and "old \<noteq> next_acl (lib w)"
    by (auto simp: holds_live_def fresh_alloc_def)
  with Some assms(1) show ?thesis
    by (auto simp: ACL_set_state_def acl_copy_int_Some acl_alloc_result Let_def acl_free_def
        fun_upd_twist split: option.splits)
qed

text \<open>
  An ACL object comes into being with no handle, and \<^verbatim>\<open>ACL_init\<close> and
  \<^verbatim>\<open>ACL_set_state\<close>, the two functions that store a handle in it, leave it with no
  handle or a live one.
\<close>

lemma ACL_new_holds_live: "holds_live (snd (ACL_new w)) (fst (ACL_new w))"
  by (simp add: ACL_new_def holds_live_def)

lemma acl_of_source_live:
  "fst (acl_of_source src L) = Some h \<Longrightarrow> acls (snd (acl_of_source src L)) h \<noteq> None"
  by (auto simp: acl_of_source_def acl_alloc_def split: option.splits)

lemma ACL_init_acquire_live:
  "fst (ACL_init_acquire P a w L) = Some h \<Longrightarrow> acls (snd (ACL_init_acquire P a w L)) h \<noteq> None"
  by (auto simp: ACL_init_acquire_def acl_get_file_def acl_from_text_def acl_get_fd_def acl_dup_def
      acl_init_def acl_alloc_def dest: acl_of_source_live split: option.splits if_splits)

lemma ACL_init_holds_live:
  "holds_live w obj \<Longrightarrow> holds_live (snd (ACL_init P obj args keywds w)) obj"
  by (auto simp: ACL_init_def Let_def PyErr_SetString_def PyErr_SetFromErrno_def holds_live_def
      split: sum.splits option.splits dest: ACL_init_acquire_live)

lemma ACL_set_state_holds_live:
  assumes "holds_live w obj" and "fresh_alloc (lib w)"
  shows "holds_live (snd (ACL_set_state obj args w)) obj"
proof (cases "\<exists>b. args = [PyString b]")
  case True
  then obtain b where b: "args = [PyString b]" ..
  show ?thesis
  proof (cases "int_form b")
    case None
    then show ?thesis
      using assms(1)
      by (auto simp: b ACL_set_state_invalid PyErr_SetFromErrno_def holds_live_def split: option.splits)
  next
    case (Some es)
    show ?thesis
      by (simp add: b ACL_set_state_valid [OF Some assms] holds_live_def)
  qed
next
  case False
  then have "ACL_set_state obj args w = (None, PyErr_SetString PyExc_TypeError w)"
    by (auto simp: ACL_set_state_def split: list.splits pyval.splits)
  then show ?thesis
    using assms(1) by (auto simp: PyErr_SetString_def holds_live_def split: option.splits)
qed

lemma ex_world_ok: "holds_live ex_world 1" "fresh_alloc (lib ex_world)"
  by (simp_all add: holds_live_def fresh_alloc_def ex_world_def ex_lib_def)

lemma int_form_named_bytes: "int_form named_bytes = Some named_entries"
  by (simp add: named_bytes_def named_entries_def ext_form_def ext_entry_def word_bytes_def
      bytes_word_def byte_def unbyte_def acl_consts)

text \<open>
  C7, as stated, fails. ACL 1 of the example state holds the live handle 10. The
  import of the bytes of the named entries succeeds, and the backend as the
  import leaves it, before anything is released, has the prior handle 10 and the
  new handle 12 both live: the prior handle is released after the import, not
  first, and the object accounts for two live handles in between. And the import
  of a buffer that is no exported state fails with the object still holding
  handle 10, live: nothing was released first.
\<close>

theorem ACL_set_state_counterexample:
  "holds_live ex_world 1 \<and> acl (ACLs ex_world 1) = Some 10 \<and>
   fst (ACL_set_state 1 [PyString named_bytes] ex_world) = Some PyNone \<and>
   lib (snd (ACL_set_state 1 [PyString named_bytes] ex_world)) =
     snd (acl_free 10 (imported named_bytes ex_world)) \<and>
   acls (imported named_bytes ex_world) 10 \<noteq> None \<and>
   acls (imported named_bytes ex_world) 12 \<noteq> None \<and>
   fst (ACL_set_state 1 [PyString ''junk''] ex_world) = None \<and>
   acl (ACLs (snd (ACL_set_state 1 [PyString ''junk''] ex_world)) 1) = Some 10 \<and>
   acls (lib (snd (ACL_set_state 1 [PyString ''junk''] ex_world))) 10 \<noteq> None"
proof -
  note v = int_form_named_bytes
  have j: "int_form ''junk'' = None"
    by simp
  have a: "acl (ACLs ex_world 1) = Some 10" "holds_live ex_world 1"
    by (simp_all add: ex_world_def ex_lib_def holds_live_def)
  have i: "acls (imported named_bytes ex_world) 10 \<noteq> None" "acls (imported named_bytes ex_world) 12 \<noteq> None"
    by (simp_all add: imported_Some [OF v] ex_world_def ex_lib_def)
  have f: "fst (acl_free 10 (imported named_bytes ex_world)) = 0"
    using i(1) by (auto simp: acl_free_def split: option.splits)
  show ?thesis
    using a i f
    by (simp add: ACL_set_state_steps [OF v] ACL_set_state_invalid [OF j] PyErr_SetFromErrno_def)
      (simp add: ex_world_def ex_lib_def)
qed

text \<open>
  C7, amended. \<^verbatim>\<open>ACL_set_state\<close> imports first, while the object still holds its prior
  handle, releases second, and stores last. For a buffer the backend cannot import
  the call fails with BackendError and changes neither the object nor the backend:
  the prior handle stays, unreleased. For a buffer the backend imports as the
  entries \<open>es\<close>, the import makes a new handle with those entries and leaves every
  other handle as it was. An object without a handle then takes the new one. An
  object with a handle has it released in the backend the import left: if that
  release fails, the call fails with BackendError, the object is unchanged and the
  new handle is left behind in the backend; otherwise the object takes the new
  handle. For an object that holds no handle or a live one, and with the backend's
  next address free, the call succeeds; the prior handle and the new one are both
  live between the import and the release and differ; afterwards the prior handle
  is released, the object holds a handle with the entries \<open>es\<close>, the live handles
  are those of before without the prior one and with the new one, and the object
  again holds a live handle. So the object accounts for at most one live handle
  before and after the call, and for two between the import and the release.
\<close>

theorem ACL_set_state_imports_then_releases:
  "(int_form b = None \<longrightarrow>
      ACL_set_state obj [PyString b] w = (None, PyErr_SetFromErrno PyExc_IOError w) \<and>
      fails_with (PyErr_SetFromErrno PyExc_IOError w) BackendError \<and>
      ACLs (PyErr_SetFromErrno PyExc_IOError w) = ACLs w \<and>
      lib (PyErr_SetFromErrno PyExc_IOError w) = lib w) \<and>
   (\<forall>es. int_form b = Some es \<longrightarrow>
      acl_entries (imported b w) (Some (next_acl (lib w))) = Some es \<and>
      (\<forall>h. h \<noteq> next_acl (lib w) \<longrightarrow> acls (imported b w) h = acls (lib w) h) \<and>
      (acl (ACLs w obj) = None \<longrightarrow>
         fst (ACL_set_state obj [PyString b] w) = Some PyNone \<and>
         acl (ACLs (snd (ACL_set_state obj [PyString b] w)) obj) = Some (next_acl (lib w)) \<and>
         lib (snd (ACL_set_state obj [PyString b] w)) = imported b w) \<and>
      (\<forall>old. acl (ACLs w obj) = Some old \<longrightarrow>
         (if fst (acl_free old (imported b w)) = -1
          then fst (ACL_set_state obj [PyString b] w) = None \<and>
               fails_with (snd (ACL_set_state obj [PyString b] w)) BackendError \<and>
               ACLs (snd (ACL_set_state obj [PyString b] w)) = ACLs w \<and>
               lib (snd (ACL_set_state obj [PyString b] w)) = imported b w
          else fst (ACL_set_state obj [PyString b] w) = Some PyNone \<and>
               curexc (snd (ACL_set_state obj [PyString b] w)) = curexc w \<and>
               acl (ACLs (snd (ACL_set_state obj [PyString b] w)) obj) = Some (next_acl (lib w)) \<and>
               lib (snd (ACL_set_state obj [PyString b] w)) = snd (acl_free old (imported b w)))) \<and>
      (holds_live w obj \<and> fresh_alloc (lib w) \<longrightarrow>
         fst (ACL_set_state obj [PyString b] w) = Some PyNone \<and>
         (\<forall>old. acl (ACLs w obj) = Some old \<longrightarrow>
            acls (imported b w) old \<noteq> None \<and>
            acls (imported b w) (next_acl (lib w)) \<noteq> None \<and>
            old \<noteq> next_acl (lib w) \<and>
            acls (lib (snd (ACL_set_state obj [PyString b] w))) old = None) \<and>
         acl_entries (lib (snd (ACL_set_state obj [PyString b] w))) (acl (ACLs (snd (ACL_set_state obj [PyString b] w)) obj)) = Some es \<and>
         dom (acls (lib (snd (ACL_set_state obj [PyString b] w)))) =
           (dom (acls (lib w)) - (case acl (ACLs w obj) of None \<Rightarrow> {} | Some old \<Rightarrow> {old}))
             \<union> {next_acl (lib w)} \<and>
         holds_live (snd (ACL_set_state obj [PyString b] w)) obj))"
proof (intro conjI impI allI)
  assume "int_form b = None"
  then show "ACL_set_state obj [PyString b] w = (None, PyErr_SetFromErrno PyExc_IOError w)"
    by (rule ACL_set_state_invalid)
next
  show "fails_with (PyErr_SetFromErrno PyExc_IOError w) BackendError"
    and "ACLs (PyErr_SetFromErrno PyExc_IOError w) = ACLs w"
    and "lib (PyErr_SetFromErrno PyExc_IOError w) = lib w"
    by (simp_all add: PyErr_SetFromErrno_def fails_with_def failure_of_def)
next
  fix es
  assume v: "int_form b = Some es"
  show "acl_entries (imported b w) (Some (next_acl (lib w))) = Some es"
    by (simp add: imported_Some [OF v] acl_entries_def)
  show "acls (imported b w) h = acls (lib w) h" if "h \<noteq> next_acl (lib w)" for h
    using that by (simp add: imported_Some [OF v])
  show "fst (ACL_set_state obj [PyString b] w) = Some PyNone"
    and "acl (ACLs (snd (ACL_set_state obj [PyString b] w)) obj) = Some (next_acl (lib w))"
    and "lib (snd (ACL_set_state obj [PyString b] w)) = imported b w"
    if "acl (ACLs w obj) = None"
    using that by (simp_all add: ACL_set_state_steps [OF v])
  show "if fst (acl_free old (imported b w)) = -1
          then fst (ACL_set_state obj [PyString b] w) = None \<and>
               fails_with (snd (ACL_set_state obj [PyString b] w)) BackendError \<and>
               ACLs (snd (ACL_set_state obj [PyString b] w)) = ACLs w \<and>
               lib (snd (ACL_set_state obj [PyString b] w)) = imported b w
          else fst (ACL_set_state obj [PyString b] w) = Some PyNone \<and>
               curexc (snd (ACL_set_state obj [PyString b] w)) = curexc w \<and>
               acl (ACLs (snd (ACL_set_state obj [PyString b] w)) obj) = Some (next_acl (lib w)) \<and>
               lib (snd (ACL_set_state obj [PyString b] w)) = snd (acl_free old (imported b w))"
    if "acl (ACLs w obj) = Some old" for old
    using that
    by (simp add: ACL_set_state_steps [OF v] PyErr_SetFromErrno_def fails_with_def failure_of_def)
next
  fix es
  assume v: "int_form b = Some es" and h: "holds_live w obj \<and> fresh_alloc (lib w)"
  note r = ACL_set_state_valid [OF v h [THEN conjunct1] h [THEN conjunct2]]
  have n: "acls (lib w) old \<noteq> None \<and> old \<noteq> next_acl (lib w)" if "acl (ACLs w obj) = Some old" for old
    using h that by (auto simp: holds_live_def fresh_alloc_def)
  show "fst (ACL_set_state obj [PyString b] w) = Some PyNone"
    and "acl_entries (lib (snd (ACL_set_state obj [PyString b] w)))
           (acl (ACLs (snd (ACL_set_state obj [PyString b] w)) obj)) = Some es"
    and "holds_live (snd (ACL_set_state obj [PyString b] w)) obj"
    by (simp_all add: r acl_entries_def holds_live_def)
  show "dom (acls (lib (snd (ACL_set_state obj [PyString b] w)))) =
          (dom (acls (lib w)) - (case acl (ACLs w obj) of None \<Rightarrow> {} | Some old \<Rightarrow> {old}))
            \<union> {next_acl (lib w)}"
    by (auto simp: r split: option.splits if_splits)
  fix old
  assume o: "acl (ACLs w obj) = Some old"
  show "acls (imported b w) old \<noteq> None"
    and "acls (imported b w) (next_acl (lib w)) \<noteq> None"
    and "old \<noteq> next_acl (lib w)"
    and "acls (lib (snd (ACL_set_state obj [PyString b] w))) old = None"
    using n [OF o] o by (simp_all add: imported_Some [OF v] r)
qed

theorem ACL_set_state_imports_then_releases_witness:
  "int_form ''junk'' = None \<and>
   ACL_set_state 1 [PyString ''junk''] ex_world = (None, ex_world\<lparr>curexc := Some PyExc_IOError\<rparr>) \<and>
   int_form named_bytes = Some named_entries \<and>
   holds_live ex_world 1 \<and> fresh_alloc (lib ex_world) \<and>
   acl (ACLs ex_world 1) = Some 10 \<and>
   acls (imported named_bytes ex_world) 10 \<noteq> None \<and>
   acls (imported named_bytes ex_world) 12 \<noteq> None \<and>
   fst (ACL_set_state 1 [PyString named_bytes] ex_world) = Some PyNone \<and>
   acl (ACLs (snd (ACL_set_state 1 [PyString named_bytes] ex_world)) 1) = Some 12 \<and>
   acl_entries (lib (snd (ACL_set_state 1 [PyString named_bytes] ex_world))) (Some 12) =
     Some named_entries \<and>
   acls (lib (snd (ACL_set_state 1 [PyString named_bytes] ex_world))) 10 = None \<and>
   dom (acls (lib (snd (ACL_set_state 1 [PyString named_bytes] ex_world)))) = {11, 12} \<and>
   acl (ACLs ex_world 4) = None \<and>
   fst (ACL_set_state 4 [PyString named_bytes] ex_world) = Some PyNone \<and>
   lib (snd (ACL_set_state 4 [PyString named_bytes] ex_world)) = imported named_bytes ex_world \<and>
   acl (ACLs stale_world 2) = Some 11 \<and>
   fst (acl_free 11 (imported named_bytes stale_world)) = -1 \<and>
   fst (ACL_set_state 2 [PyString named_bytes] stale_world) = None \<and>
   fails_with (snd (ACL_set_state 2 [PyString named_bytes] stale_world)) BackendError \<and>
   acl (ACLs (snd (ACL_set_state 2 [PyString named_bytes] stale_world)) 2) = Some 11 \<and>
   acls (lib (snd (ACL_set_state 2 [PyString named_bytes] stale_world))) 12 \<noteq> None"
proof -
  have j: "int_form ''junk'' = None"
    by simp
  note v = int_form_named_bytes
  have a: "acl (ACLs ex_world 1) = Some 10" "next_acl (lib ex_world) = 12"
    "dom (acls (lib ex_world)) = {10, 11}" "acl (ACLs ex_world 4) = None"
    by (auto simp: ex_world_def ex_lib_def)
  have s: "acl (ACLs stale_world 2) = Some 11" "next_acl (lib stale_world) = 12"
    "acls (lib stale_world) 11 = None"
    by (simp_all add: stale_world_def ex_world_def ex_lib_def acl_free_def)
  have f: "fst (acl_free 11 (imported named_bytes stale_world)) = -1"
    by (simp add: imported_Some [OF v] acl_free_def s)
  have g: "fst (acl_free 10 (imported named_bytes ex_world)) \<noteq> -1"
    by (simp add: imported_Some [OF v] acl_free_def ex_world_def ex_lib_def)
  have i: "acls (imported named_bytes stale_world) 12 \<noteq> None"
    by (simp add: imported_Some [OF v] s)
  have 1: "ACL_set_state 1 [PyString ''junk''] ex_world = (None, ex_world\<lparr>curexc := Some PyExc_IOError\<rparr>)"
    using ACL_set_state_imports_then_releases [of "''junk''" 1 ex_world] j
    by (simp add: PyErr_SetFromErrno_def)
  note t = ACL_set_state_imports_then_releases [of named_bytes 1 ex_world, THEN conjunct2,
      rule_format, OF v]
  have 2: "acl (ACLs (snd (ACL_set_state 1 [PyString named_bytes] ex_world)) 1) = Some 12"
    using t [THEN conjunct2, THEN conjunct2, THEN conjunct2, THEN conjunct1, rule_format, OF a(1)] g a(2)
    by simp
  have 3: "fst (ACL_set_state 1 [PyString named_bytes] ex_world) = Some PyNone"
    "acls (imported named_bytes ex_world) 10 \<noteq> None"
    "acls (imported named_bytes ex_world) 12 \<noteq> None"
    "acls (lib (snd (ACL_set_state 1 [PyString named_bytes] ex_world))) 10 = None"
    "acl_entries (lib (snd (ACL_set_state 1 [PyString named_bytes] ex_world))) (Some 12) =
       Some named_entries"
    "dom (acls (lib (snd (ACL_set_state 1 [PyString named_bytes] ex_world)))) = {11, 12}"
    using t [THEN conjunct2, THEN conjunct2, THEN conjunct2, THEN conjunct2, rule_format,
        OF conjI [OF ex_world_ok]] a 2
    by auto
  note u = ACL_set_state_imports_then_releases [of named_bytes 4 ex_world, THEN conjunct2,
      rule_format, OF v]
  have 4: "fst (ACL_set_state 4 [PyString named_bytes] ex_world) = Some PyNone"
    "lib (snd (ACL_set_state 4 [PyString named_bytes] ex_world)) = imported named_bytes ex_world"
    using u [THEN conjunct2, THEN conjunct2, THEN conjunct1, rule_format, OF a(4)]
    by simp_all
  note x = ACL_set_state_imports_then_releases [of named_bytes 2 stale_world, THEN conjunct2,
      rule_format, OF v]
  have 5: "fst (ACL_set_state 2 [PyString named_bytes] stale_world) = None"
    "fails_with (snd (ACL_set_state 2 [PyString named_bytes] stale_world)) BackendError"
    "acl (ACLs (snd (ACL_set_state 2 [PyString named_bytes] stale_world)) 2) = Some 11"
    "acls (lib (snd (ACL_set_state 2 [PyString named_bytes] stale_world))) 12 \<noteq> None"
    using x [THEN conjunct2, THEN conjunct2, THEN conjunct2, THEN conjunct1, rule_format, OF s(1)]
      f s(1) i
    by simp_all
  show ?thesis
    using j v ex_world_ok a(1,4) s(1) f 1 2 3 4 5
    by simp
qed

lemma ACL_get_state_live:
  "acl_entries (lib w) (acl (ACLs w a)) = Some es \<Longrightarrow>
   ACL_get_state a w = (Some (PyString (ext_form es)), w)"
  by (simp add: ACL_get_state_def acl_size_def acl_copy_ext_def Let_def)

lemma ACL_valid_live:
  "fst (ACL_valid a w) = Some (PyBool True) \<Longrightarrow>
   \<exists>es. acl_entries (lib w) (acl (ACLs w a)) = Some es \<and> acl_check es"
  by (auto simp: ACL_valid_def acl_valid_def split: option.splits if_splits)

lemma ACL_str_entries:
  "fst (ACL_str P obj w) =
     (case acl_entries (lib w) (acl (ACLs w obj)) of
        None \<Rightarrow> None
      | Some es \<Rightarrow> map_option PyString (p_to_text P es))"
  by (simp add: ACL_str_def acl_to_text_def acl_free_text_def split: option.splits)

lemma state_roundtrip_live:
  assumes "acl_entries (lib w) (acl (ACLs w a)) = Some es"
    and "holds_live w b" and "fresh_alloc (lib w)"
  shows "ACL_get_state a w = (Some (PyString (ext_form es)), w)"
    and "fst (ACL_set_state b [PyString (ext_form es)] w) = Some PyNone"
    and "acl_entries (lib (snd (ACL_set_state b [PyString (ext_form es)] w)))
           (acl (ACLs (snd (ACL_set_state b [PyString (ext_form es)] w)) b)) = Some es"
  using assms(1)
  by (simp_all add: ACL_get_state_live ACL_set_state_valid [OF int_form_ext_form assms(2,3)]
      acl_entries_def)

text \<open>
  C1. The state of an ACL \<open>a\<close> that \<^verbatim>\<open>ACL_valid\<close> reports valid is exported with
  \<^verbatim>\<open>ACL_get_state\<close> and imported with \<^verbatim>\<open>ACL_set_state\<close> into an ACL \<open>b\<close> (another
  object or \<open>a\<close> itself, holding no handle or a live one, the backend's next
  address free). Both calls succeed, the export changes nothing, \<open>b\<close> afterwards
  holds the entries that \<open>a\<close> held, and \<^verbatim>\<open>ACL_str\<close> of \<open>b\<close> afterwards returns what
  \<^verbatim>\<open>ACL_str\<close> of \<open>a\<close> returned before, on every platform. The wrapper itself never
  looks at validity: the same holds for every ACL with a live handle.
\<close>

theorem state_roundtrip_keeps_text:
  assumes "fst (ACL_valid a w) = Some (PyBool True)"
    and "holds_live w b" and "fresh_alloc (lib w)"
  shows "\<exists>buf w'. ACL_get_state a w = (Some (PyString buf), w) \<and>
           ACL_set_state b [PyString buf] w = (Some PyNone, w') \<and>
           acl_entries (lib w') (acl (ACLs w' b)) = acl_entries (lib w) (acl (ACLs w a)) \<and>
           fst (ACL_str P b w') = fst (ACL_str P a w)"
proof -
  from assms(1) obtain es where es: "acl_entries (lib w) (acl (ACLs w a)) = Some es"
    using ACL_valid_live by blast
  let ?r = "ACL_set_state b [PyString (ext_form es)] w"
  note s = state_roundtrip_live [OF es assms(2,3)]
  have "?r = (Some PyNone, snd ?r)"
    using s(2) by (simp add: prod_eq_iff)
  moreover have "fst (ACL_str P b (snd ?r)) = fst (ACL_str P a w)"
    by (simp add: ACL_str_entries s(3) es)
  ultimately show ?thesis
    using s(1,3) es by metis
qed

lemma render_named_entries: "render_acl named_entries = Some named_text"
  by code_simp

theorem state_roundtrip_keeps_text_witness:
  "fst (ACL_valid 2 ex_world) = Some (PyBool True) \<and>
   holds_live ex_world 1 \<and> fresh_alloc (lib ex_world) \<and>
   ACL_get_state 2 ex_world = (Some (PyString named_bytes), ex_world) \<and>
   fst (ACL_set_state 1 [PyString named_bytes] ex_world) = Some PyNone \<and>
   acl_entries (lib (snd (ACL_set_state 1 [PyString named_bytes] ex_world)))
     (acl (ACLs (snd (ACL_set_state 1 [PyString named_bytes] ex_world)) 1)) = Some named_entries \<and>
   fst (ACL_str ex_platform 2 ex_world) = Some (PyString named_text) \<and>
   fst (ACL_str ex_platform 1 (snd (ACL_set_state 1 [PyString named_bytes] ex_world))) =
     Some (PyString named_text)"
proof -
  have a: "acl_entries (lib ex_world) (acl (ACLs ex_world 2)) = Some named_entries"
    by (simp add: acl_entries_def ex_world_def ex_lib_def)
  have c: "acl_check named_entries"
    by (simp add: acl_check_def count_tag_def qualifiers_of_def named_entries_def acl_consts)
  have v: "fst (ACL_valid 2 ex_world) = Some (PyBool True)"
    by (simp add: ACL_valid_def acl_valid_def a c)
  have t: "fst (ACL_str ex_platform 2 ex_world) = Some (PyString named_text)"
    by (simp add: ACL_str_entries a) (simp add: ex_platform_def render_named_entries)
  have g: "ACL_get_state 2 ex_world = (Some (PyString named_bytes), ex_world)"
    by (simp add: ACL_get_state_live [OF a] named_bytes_def)
  from state_roundtrip_keeps_text [OF v ex_world_ok, of ex_platform]
  obtain buf w' where "ACL_get_state 2 ex_world = (Some (PyString buf), ex_world)"
    and "ACL_set_state 1 [PyString buf] ex_world = (Some PyNone, w')"
    and "acl_entries (lib w') (acl (ACLs w' 1)) = acl_entries (lib ex_world) (acl (ACLs ex_world 2))"
    and "fst (ACL_str ex_platform 1 w') = fst (ACL_str ex_platform 2 ex_world)"
    by blast
  with g t a v ex_world_ok show ?thesis
    by simp
qed

subsection \<open>Iteration\<close>

lemma ACL_iter_pos:
  "acl (ACLs w obj) = Some h \<Longrightarrow> acls (lib w) h = Some a \<Longrightarrow>
   iter_pos (snd (ACL_iter obj w)) obj h (aentries a) 0"
  by (simp add: iter_pos_def ACL_iter_def Py_INCREF_ACL_def)

lemma ACL_iter_frame:
  "curexc (snd (ACL_iter obj w)) = curexc w"
  "Entries (snd (ACL_iter obj w)) = Entries w"
  "next_ob (snd (ACL_iter obj w)) = next_ob w"
  by (simp_all add: ACL_iter_def Py_INCREF_ACL_def)

lemma iternext_some:
  assumes "iter_pos w obj h xs k" and "k < length xs"
  shows "fst (ACL_iternext obj w) = Some (PyEntry (next_ob w))"
    and "iter_pos (snd (ACL_iternext obj w)) obj h xs (Suc k)"
    and "next_ob (snd (ACL_iternext obj w)) = Suc (next_ob w)"
    and "entry (Entries (snd (ACL_iternext obj w)) (next_ob w)) = Some (h, fst (xs ! k))"
    and "parent_acl (Entries (snd (ACL_iternext obj w)) (next_ob w)) = Some obj"
    and "e \<noteq> next_ob w \<Longrightarrow> Entries (snd (ACL_iternext obj w)) e = Entries w e"
    and "curexc (snd (ACL_iternext obj w)) = curexc w"
  using assms
  by (auto simp: iter_pos_def ACL_iternext_def acl_get_entry_def Let_def PyType_GenericNew_Entry_def
      Py_INCREF_ACL_def ACL_FIRST_ENTRY_def ACL_NEXT_ENTRY_def split: option.splits)

lemma iternext_none:
  assumes "iter_pos w obj h xs k" and "\<not> k < length xs"
  shows "fst (ACL_iternext obj w) = None"
    and "iter_pos (snd (ACL_iternext obj w)) obj h xs k"
    and "next_ob (snd (ACL_iternext obj w)) = next_ob w"
    and "Entries (snd (ACL_iternext obj w)) = Entries w"
    and "curexc (snd (ACL_iternext obj w)) = curexc w"
  using assms
  by (auto simp: iter_pos_def ACL_iternext_def acl_get_entry_def Let_def
      ACL_FIRST_ENTRY_def ACL_NEXT_ENTRY_def split: option.splits)


lemma drain_Suc:
  "drain (Suc fuel) obj w =
     (case fst (ACL_iternext obj w) of
        None \<Rightarrow> Some ([], snd (ACL_iternext obj w))
      | Some v \<Rightarrow>
          (case drain fuel obj (snd (ACL_iternext obj w)) of
             None \<Rightarrow> None
           | Some (vs, w'') \<Rightarrow> Some (v # vs, w'')))"
  by (simp split: prod.splits option.splits)

lemma drain_from:
  assumes "iter_pos w obj h xs k" and "k \<le> length xs" and "length xs - k < fuel"
  shows "\<exists>vs w'. drain fuel obj w = Some (vs, w') \<and>
           map (view_of w') vs = map (\<lambda>x. Some (h, fst x)) (drop k xs) \<and>
           iter_pos w' obj h xs (length xs) \<and>
           curexc w' = curexc w \<and>
           next_ob w \<le> next_ob w' \<and>
           (\<forall>e<next_ob w. Entries w' e = Entries w e)"
  using assms
proof (induction "length xs - k" arbitrary: k w fuel)
  case 0
  then have k: "k = length xs" by simp
  from "0.prems"(3) obtain f where f: "fuel = Suc f"
    by (cases fuel) auto
  have n: "\<not> k < length xs" using k by simp
  note s = iternext_none [OF "0.prems"(1) n]
  have "drain fuel obj w = Some ([], snd (ACL_iternext obj w))"
    unfolding f drain_Suc by (simp add: s(1))
  then show ?case
    using s k by simp
next
  case (Suc d)
  then have k: "k < length xs" by simp
  from Suc.prems(3) obtain f where f: "fuel = Suc f"
    by (cases fuel) auto
  let ?w1 = "snd (ACL_iternext obj w)"
  let ?n = "next_ob w"
  note s = iternext_some [OF Suc.prems(1) k]
  have d: "d = length xs - Suc k" using Suc.hyps(2) by simp
  have "length xs - Suc k < f" using Suc.prems(3) f k by simp
  from Suc.hyps(1) [OF d s(2) _ this] k
  obtain vs w' where r: "drain f obj ?w1 = Some (vs, w')"
    and m: "map (view_of w') vs = map (\<lambda>x. Some (h, fst x)) (drop (Suc k) xs)"
    and p: "iter_pos w' obj h xs (length xs)"
    and c: "curexc w' = curexc ?w1"
    and o: "next_ob ?w1 \<le> next_ob w'"
    and u: "\<forall>e<next_ob ?w1. Entries w' e = Entries ?w1 e"
    by auto
  have dr: "drain fuel obj w = Some (PyEntry ?n # vs, w')"
    unfolding f drain_Suc by (simp add: s(1) r)
  have "Entries w' ?n = Entries ?w1 ?n"
    using u by (simp add: s(3))
  then have v: "view_of w' (PyEntry ?n) = Some (h, fst (xs ! k))"
    by (simp add: view_of_def s(4))
  have "drop k xs = xs ! k # drop (Suc k) xs"
    using k by (simp add: Cons_nth_drop_Suc)
  then have m': "map (view_of w') (PyEntry ?n # vs) = map (\<lambda>x. Some (h, fst x)) (drop k xs)"
    using v m by simp
  have u': "\<forall>e<?n. Entries w' e = Entries w e"
  proof (intro allI impI)
    fix e assume "e < ?n"
    then have "Entries w' e = Entries ?w1 e" and "e \<noteq> ?n"
      using u by (simp_all add: s(3))
    then show "Entries w' e = Entries w e"
      by (simp add: s(6))
  qed
  show ?case
    using dr m' p c o u' by (simp add: s(3) s(7))
qed


lemma traverse_all:
  assumes "acl (ACLs w obj) = Some h" and "acls (lib w) h = Some a" and "length (aentries a) < fuel"
  shows "\<exists>vs w1. traverse fuel obj w = Some (vs, w1) \<and>
           map (view_of w1) vs = map (\<lambda>x. Some (h, fst x)) (aentries a) \<and>
           iter_pos w1 obj h (aentries a) (length (aentries a)) \<and>
           curexc w1 = curexc w"
  using drain_from [OF ACL_iter_pos [OF assms(1,2)], of fuel] assms(3)
  by (auto simp: traverse_def ACL_iter_frame)

lemma iter_pos_live:
  "iter_pos w obj h xs k \<Longrightarrow> acl (ACLs w obj) = Some h \<and> (\<exists>a. acls (lib w) h = Some a \<and> aentries a = xs)"
  by (auto simp: iter_pos_def split: option.splits)

text \<open>
  C3. An ACL object that holds a live handle with \<open>N\<close> records, whatever its
  cursor says. \<^verbatim>\<open>ACL_iter\<close> sets the cursor of the object to the start. A traversal
  (\<^verbatim>\<open>ACL_iter\<close>, then \<^verbatim>\<open>ACL_iternext\<close> until it returns \<^verbatim>\<open>NULL\<close>) with fuel for more than
  \<open>N\<close> steps ends: it yields \<open>N\<close> Entry views, the \<open>k\<close>-th one standing for the
  \<open>k\<close>-th record of the handle, and its last step returns \<^verbatim>\<open>NULL\<close> with no new
  exception. A second traversal, started in the state the first one left, yields
  \<open>N\<close> views of the same records in the same order.
\<close>

theorem traversal_yields_all_entries:
  assumes "acl (ACLs w obj) = Some h" and "acls (lib w) h = Some a" and "length (aentries a) < fuel"
  shows "entry_id (ACLs (snd (ACL_iter obj w)) obj) = ACL_FIRST_ENTRY \<and>
         (\<exists>vs w1. traverse fuel obj w = Some (vs, w1) \<and>
            length vs = length (aentries a) \<and>
            map (view_of w1) vs = map (\<lambda>x. Some (h, fst x)) (aentries a) \<and>
            curexc w1 = curexc w \<and>
            (\<exists>vs2 w2. traverse fuel obj w1 = Some (vs2, w2) \<and>
               length vs2 = length (aentries a) \<and>
               map (view_of w2) vs2 = map (view_of w1) vs \<and>
               curexc w2 = curexc w))"
proof
  show "entry_id (ACLs (snd (ACL_iter obj w)) obj) = ACL_FIRST_ENTRY"
    by (simp add: ACL_iter_def Py_INCREF_ACL_def)
next
  from traverse_all [OF assms] obtain vs w1 where t1: "traverse fuel obj w = Some (vs, w1)"
    and m1: "map (view_of w1) vs = map (\<lambda>x. Some (h, fst x)) (aentries a)"
    and p1: "iter_pos w1 obj h (aentries a) (length (aentries a))"
    and c1: "curexc w1 = curexc w"
    by blast
  from iter_pos_live [OF p1] obtain a1 where l1: "acl (ACLs w1 obj) = Some h"
    "acls (lib w1) h = Some a1" and x1: "aentries a1 = aentries a"
    by blast
  have "length (aentries a1) < fuel"
    using assms(3) x1 by simp
  from traverse_all [OF l1 this] obtain vs2 w2 where t2: "traverse fuel obj w1 = Some (vs2, w2)"
    and m2: "map (view_of w2) vs2 = map (\<lambda>x. Some (h, fst x)) (aentries a1)"
    and c2: "curexc w2 = curexc w1"
    by blast
  have n1: "length vs = length (aentries a)"
    using m1 by (metis length_map)
  have n2: "length vs2 = length (aentries a)"
    using m2 x1 by (metis length_map)
  show "\<exists>vs w1. traverse fuel obj w = Some (vs, w1) \<and>
            length vs = length (aentries a) \<and>
            map (view_of w1) vs = map (\<lambda>x. Some (h, fst x)) (aentries a) \<and>
            curexc w1 = curexc w \<and>
            (\<exists>vs2 w2. traverse fuel obj w1 = Some (vs2, w2) \<and>
               length vs2 = length (aentries a) \<and>
               map (view_of w2) vs2 = map (view_of w1) vs \<and>
               curexc w2 = curexc w)"
    using t1 m1 c1 t2 m2 c2 n1 n2 x1 by auto
qed


theorem traversal_yields_all_entries_witness:
  "acl (ACLs ex_world 2) = Some 11 \<and>
   acls (lib ex_world) 11 = Some \<lparr>aentries = enumerate 0 named_entries, acurr = 0, anext_id = 5\<rparr> \<and>
   map_option fst (traverse 6 2 ex_world) =
     Some [PyEntry 5, PyEntry 6, PyEntry 7, PyEntry 8, PyEntry 9] \<and>
   (\<exists>vs w1. traverse 6 2 ex_world = Some (vs, w1) \<and> length vs = 5 \<and>
      map (view_of w1) vs = [Some (11, 0), Some (11, 1), Some (11, 2), Some (11, 3), Some (11, 4)] \<and>
      (\<exists>vs2 w2. traverse 6 2 w1 = Some (vs2, w2) \<and> length vs2 = 5 \<and>
         map (view_of w2) vs2 = [Some (11, 0), Some (11, 1), Some (11, 2), Some (11, 3), Some (11, 4)])) \<and>
   acls (lib mid_world) 11 = Some \<lparr>aentries = enumerate 0 named_entries, acurr = 1, anext_id = 5\<rparr> \<and>
   (\<exists>vs w1. traverse 6 2 mid_world = Some (vs, w1) \<and> length vs = 5 \<and>
      map (view_of w1) vs = [Some (11, 0), Some (11, 1), Some (11, 2), Some (11, 3), Some (11, 4)])"
proof -
  let ?a = "\<lparr>aentries = enumerate 0 named_entries, acurr = 0, anext_id = 5\<rparr>"
  let ?b = "\<lparr>aentries = enumerate 0 named_entries, acurr = 1, anext_id = 5\<rparr>"
  have a: "acl (ACLs ex_world 2) = Some 11" "acls (lib ex_world) 11 = Some ?a"
    by (simp_all add: ex_world_def ex_lib_def)
  have b: "acl (ACLs mid_world 2) = Some 11" "acls (lib mid_world) 11 = Some ?b"
    by (simp_all add: mid_world_def ACL_iter_def ACL_iternext_def acl_get_entry_def Let_def
        PyType_GenericNew_Entry_def Py_INCREF_ACL_def ACL_FIRST_ENTRY_def ACL_NEXT_ENTRY_def ex_defs)
  have n: "length (aentries ?a) < 6" "length (aentries ?b) < 6"
    by (simp_all add: named_entries_def)
  have x: "map (\<lambda>x. Some (11::nat, fst x)) (enumerate 0 named_entries) =
             [Some (11, 0), Some (11, 1), Some (11, 2), Some (11, 3), Some (11, 4)]"
    by (simp add: named_entries_def)
  have l: "length named_entries = 5"
    by (simp add: named_entries_def)
  have e: "map_option fst (traverse 6 2 ex_world) =
     Some [PyEntry 5, PyEntry 6, PyEntry 7, PyEntry 8, PyEntry 9]"
    by (simp add: traverse_def ACL_iter_def ACL_iternext_def acl_get_entry_def Let_def
        PyType_GenericNew_Entry_def Py_INCREF_ACL_def ACL_FIRST_ENTRY_def ACL_NEXT_ENTRY_def
        ex_defs numeral_nat)
  show ?thesis
    using traversal_yields_all_entries [OF a n(1)] traversal_yields_all_entries [OF b n(2)] a b(2) e
    by (simp add: x l) metis
qed

end
